theory Spec2Isabelle
  imports Main "HOL-Library.Word"
begin

unbundle bit_operations_syntax

section \<open>Data model of the SDFEC driver\<close>

text \<open>
  The driver (drivers/misc/xilinx_sdfec.c) talks to the accelerator through a window of
  32-bit registers. The window is modelled as a store from byte offsets to words together
  with the trace of the accesses made, in program order; \<open>dev_err\<close> output is kept as a
  list of messages (format arguments dropped). C's \<open>u32\<close> is \<open>32 word\<close>, so every
  sum, product and shift wraps as in the C code. Return values are C \<open>int\<close>s.
\<close>

type_synonym u32 = "32 word"

datatype io_access = Read u32 | Write u32 u32

datatype xsdfec_state = XSDFEC_INIT | XSDFEC_STARTED | XSDFEC_STOPPED | XSDFEC_NEEDS_RESET

text \<open>
  Modelled from the spec: the enumerations \<open>xsdfec_code\<close>, \<open>xsdfec_order\<close>,
  \<open>xsdfec_axis_width\<close> and \<open>xsdfec_axis_word_include\<close> are declared in the uapi header,
  which is not part of the sources. The code family is \<open>Invalid | LDPC | Turbo\<close>; the
  driver writes \<open>code - 1\<close> to the code register, so the numeric values are 0, 1, 2.
  The order is kept as the raw integer with \<open>XSDFEC_INVALID_ORDER = 0\<close> and two valid
  values below \<open>XSDFEC_ORDER_MAX\<close>.
\<close>

datatype xsdfec_code = XSDFEC_CODE_INVALID | XSDFEC_TURBO_CODE | XSDFEC_LDPC_CODE

fun code_val :: "xsdfec_code \<Rightarrow> u32" where
  "code_val XSDFEC_CODE_INVALID = 0"
| "code_val XSDFEC_TURBO_CODE = 1"
| "code_val XSDFEC_LDPC_CODE = 2"

abbreviation (input) XSDFEC_INVALID_ORDER :: u32 where "XSDFEC_INVALID_ORDER \<equiv> 0"
abbreviation (input) XSDFEC_ORDER_MAX :: u32 where "XSDFEC_ORDER_MAX \<equiv> 3"

datatype xsdfec_axis_width = XSDFEC_1x128b | XSDFEC_2x128b | XSDFEC_4x128b

datatype xsdfec_axis_word_include =
  XSDFEC_FIXED_VALUE | XSDFEC_IN_BLOCK | XSDFEC_PER_AXI_TRANSACTION

record xsdfec_config =
  fec_id :: u32
  code :: xsdfec_code
  order :: u32
  din_width :: xsdfec_axis_width
  din_word_include :: xsdfec_axis_word_include
  dout_width :: xsdfec_axis_width
  dout_word_include :: xsdfec_axis_word_include

text \<open>
  \<open>struct xsdfec_dev\<close>. \<open>regs\<close> is the content of the mapped register window,
  \<open>io_trace\<close> the accesses made to it, \<open>errlog\<close> the \<open>dev_err\<close> messages and
  \<open>waitq_woken\<close> records \<open>wake_up_interruptible\<close> on the wait queue. The three
  \<open>atomic_t\<close> counters are 32-bit and wrap. The bookkeeping fields of the character
  device (\<open>open_count\<close>, \<open>irq\<close>, \<open>xsdfec_cdev\<close>) are not used by the functions below.
\<close>

record xsdfec_dev =
  regs :: "u32 \<Rightarrow> u32"
  io_trace :: "io_access list"
  errlog :: "string list"
  state :: xsdfec_state
  config :: xsdfec_config
  wr_protect :: bool
  isr_err_count :: u32
  cecc_count :: u32
  uecc_count :: u32
  waitq_woken :: bool

text \<open>
  Modelled from the spec: \<open>struct xsdfec_ldpc_params\<close> of the absent uapi header, with
  the fields the driver reads and writes. Scalar fields are \<open>u32\<close> (the narrowing to
  \<open>u8\<close>/\<open>u16\<close> happens at the call of \<open>xsdfec_reg3_write\<close>). A table payload is the
  memory behind the array, indexed by word.
\<close>

record xsdfec_ldpc_params =
  ldpc_n :: u32
  ldpc_k :: u32
  ldpc_psize :: u32
  ldpc_nlayers :: u32
  ldpc_nqc :: u32
  ldpc_nmqc :: u32
  ldpc_nm :: u32
  ldpc_norm_type :: u32
  ldpc_no_packing :: u32
  ldpc_special_qc :: u32
  ldpc_no_final_parity :: u32
  ldpc_max_schedule :: u32
  ldpc_sc_off :: u32
  ldpc_la_off :: u32
  ldpc_qc_off :: u32
  ldpc_sc_table :: "nat \<Rightarrow> u32"
  ldpc_la_table :: "nat \<Rightarrow> u32"
  ldpc_qc_table :: "nat \<Rightarrow> u32"
  ldpc_code_id :: u32

text \<open>
  The constants of the absent uapi header that the driver uses: the base addresses of
  the three tables, the ioctl magic and the command numbers. They are parameters of the
  model.
\<close>

record uapi =
  XSDFEC_LDPC_SC_TABLE_ADDR_BASE :: u32
  XSDFEC_LDPC_LA_TABLE_ADDR_BASE :: u32
  XSDFEC_LDPC_QC_TABLE_ADDR_BASE :: u32
  XSDFEC_MAGIC :: u32
  XSDFEC_START_DEV :: u32
  XSDFEC_STOP_DEV :: u32
  XSDFEC_CLEAR_STATS :: u32
  XSDFEC_GET_STATS :: u32
  XSDFEC_GET_STATUS :: u32
  XSDFEC_GET_CONFIG :: u32
  XSDFEC_SET_DEFAULT_CONFIG :: u32
  XSDFEC_SET_IRQ :: u32
  XSDFEC_SET_TURBO :: u32
  XSDFEC_GET_TURBO :: u32
  XSDFEC_ADD_LDPC_CODE_PARAMS :: u32
  XSDFEC_GET_LDPC_CODE_PARAMS :: u32
  XSDFEC_SET_ORDER :: u32
  XSDFEC_SET_BYPASS :: u32
  XSDFEC_IS_ACTIVE :: u32

subsection \<open>Error numbers and the register map\<close>

abbreviation (input) EPERM :: int where "EPERM \<equiv> 1"
abbreviation (input) EIO :: int where "EIO \<equiv> 5"
abbreviation (input) ENOMEM :: int where "ENOMEM \<equiv> 12"
abbreviation (input) EFAULT :: int where "EFAULT \<equiv> 14"
abbreviation (input) EINVAL :: int where "EINVAL \<equiv> 22"
abbreviation (input) ENOTTY :: int where "ENOTTY \<equiv> 25"

abbreviation (input) XSDFEC_AXI_WR_PROTECT_ADDR :: u32 where "XSDFEC_AXI_WR_PROTECT_ADDR \<equiv> 0x00000"
abbreviation (input) XSDFEC_CODE_WR_PROTECT_ADDR :: u32 where "XSDFEC_CODE_WR_PROTECT_ADDR \<equiv> 0x00004"
abbreviation (input) XSDFEC_ACTIVE_ADDR :: u32 where "XSDFEC_ACTIVE_ADDR \<equiv> 0x00008"
abbreviation (input) XSDFEC_AXIS_WIDTH_ADDR :: u32 where "XSDFEC_AXIS_WIDTH_ADDR \<equiv> 0x0000c"
abbreviation (input) XSDFEC_AXIS_ENABLE_ADDR :: u32 where "XSDFEC_AXIS_ENABLE_ADDR \<equiv> 0x00010"
abbreviation (input) XSDFEC_AXIS_ENABLE_MASK :: u32 where "XSDFEC_AXIS_ENABLE_MASK \<equiv> 0x0003F"
abbreviation (input) XSDFEC_FEC_CODE_ADDR :: u32 where "XSDFEC_FEC_CODE_ADDR \<equiv> 0x00014"
abbreviation (input) XSDFEC_ORDER_ADDR :: u32 where "XSDFEC_ORDER_ADDR \<equiv> 0x00018"
abbreviation (input) XSDFEC_ISR_MASK :: u32 where "XSDFEC_ISR_MASK \<equiv> 0x0003F"
abbreviation (input) XSDFEC_ISR_ADDR :: u32 where "XSDFEC_ISR_ADDR \<equiv> 0x0001c"
abbreviation (input) XSDFEC_IER_ADDR :: u32 where "XSDFEC_IER_ADDR \<equiv> 0x00020"
abbreviation (input) XSDFEC_IDR_ADDR :: u32 where "XSDFEC_IDR_ADDR \<equiv> 0x00024"
abbreviation (input) XSDFEC_IMR_ADDR :: u32 where "XSDFEC_IMR_ADDR \<equiv> 0x00028"
abbreviation (input) XSDFEC_ECC_ISR_SBE :: u32 where "XSDFEC_ECC_ISR_SBE \<equiv> 0x7FF"
abbreviation (input) XSDFEC_ECC_ISR_MBE :: u32 where "XSDFEC_ECC_ISR_MBE \<equiv> 0x3FF800"
abbreviation (input) XSDFEC_ECC_ISR_MASK :: u32 where
  "XSDFEC_ECC_ISR_MASK \<equiv> XSDFEC_ECC_ISR_SBE OR XSDFEC_ECC_ISR_MBE"
abbreviation (input) XSDFEC_ERROR_MAX_THRESHOLD :: int where "XSDFEC_ERROR_MAX_THRESHOLD \<equiv> 100"
abbreviation (input) XSDFEC_ECC_ISR_ADDR :: u32 where "XSDFEC_ECC_ISR_ADDR \<equiv> 0x0002c"
abbreviation (input) XSDFEC_ECC_IER_ADDR :: u32 where "XSDFEC_ECC_IER_ADDR \<equiv> 0x00030"
abbreviation (input) XSDFEC_ECC_IDR_ADDR :: u32 where "XSDFEC_ECC_IDR_ADDR \<equiv> 0x00034"
abbreviation (input) XSDFEC_ECC_IMR_ADDR :: u32 where "XSDFEC_ECC_IMR_ADDR \<equiv> 0x00038"
abbreviation (input) XSDFEC_BYPASS_ADDR :: u32 where "XSDFEC_BYPASS_ADDR \<equiv> 0x0003c"
abbreviation (input) XSDFEC_TURBO_ADDR :: u32 where "XSDFEC_TURBO_ADDR \<equiv> 0x00100"
abbreviation (input) XSDFEC_LDPC_CODE_REG0_ADDR_BASE :: u32 where "XSDFEC_LDPC_CODE_REG0_ADDR_BASE \<equiv> 0x02000"
abbreviation (input) XSDFEC_LDPC_CODE_REG0_ADDR_HIGH :: u32 where "XSDFEC_LDPC_CODE_REG0_ADDR_HIGH \<equiv> 0x021fc"
abbreviation (input) XSDFEC_LDPC_CODE_REG1_ADDR_BASE :: u32 where "XSDFEC_LDPC_CODE_REG1_ADDR_BASE \<equiv> 0x02004"
abbreviation (input) XSDFEC_LDPC_CODE_REG1_ADDR_HIGH :: u32 where "XSDFEC_LDPC_CODE_REG1_ADDR_HIGH \<equiv> 0x02200"
abbreviation (input) XSDFEC_LDPC_CODE_REG2_ADDR_BASE :: u32 where "XSDFEC_LDPC_CODE_REG2_ADDR_BASE \<equiv> 0x02008"
abbreviation (input) XSDFEC_LDPC_CODE_REG2_ADDR_HIGH :: u32 where "XSDFEC_LDPC_CODE_REG2_ADDR_HIGH \<equiv> 0x02204"
abbreviation (input) XSDFEC_LDPC_CODE_REG3_ADDR_BASE :: u32 where "XSDFEC_LDPC_CODE_REG3_ADDR_BASE \<equiv> 0x0200c"
abbreviation (input) XSDFEC_LDPC_CODE_REG3_ADDR_HIGH :: u32 where "XSDFEC_LDPC_CODE_REG3_ADDR_HIGH \<equiv> 0x02208"

section \<open>Register access and the write-protection gate\<close>

definition dev_err :: "xsdfec_dev \<Rightarrow> string \<Rightarrow> xsdfec_dev" where
  "dev_err xsdfec msg = xsdfec\<lparr>errlog := errlog xsdfec @ [msg]\<rparr>"

definition iowrite32 :: "u32 \<Rightarrow> u32 \<Rightarrow> xsdfec_dev \<Rightarrow> xsdfec_dev" where
  "iowrite32 val addr xsdfec =
     xsdfec\<lparr>regs := (regs xsdfec)(addr := val),
            io_trace := io_trace xsdfec @ [Write addr val]\<rparr>"

definition ioread32 :: "u32 \<Rightarrow> xsdfec_dev \<Rightarrow> u32 \<times> xsdfec_dev" where
  "ioread32 addr xsdfec =
     (regs xsdfec addr, xsdfec\<lparr>io_trace := io_trace xsdfec @ [Read addr]\<rparr>)"

definition xsdfec_regwrite :: "xsdfec_dev \<Rightarrow> u32 \<Rightarrow> u32 \<Rightarrow> xsdfec_dev" where
  "xsdfec_regwrite xsdfec addr val =
     (if wr_protect xsdfec then dev_err xsdfec ''SDFEC in write protect''
      else iowrite32 val addr xsdfec)"

definition xsdfec_regread :: "xsdfec_dev \<Rightarrow> u32 \<Rightarrow> u32 \<times> xsdfec_dev" where
  "xsdfec_regread xsdfec addr = ioread32 addr xsdfec"

abbreviation (input) XSDFEC_WRITE_PROTECT_ENABLE :: u32 where "XSDFEC_WRITE_PROTECT_ENABLE \<equiv> 1"
abbreviation (input) XSDFEC_WRITE_PROTECT_DISABLE :: u32 where "XSDFEC_WRITE_PROTECT_DISABLE \<equiv> 0"

definition xsdfec_wr_protect :: "xsdfec_dev \<Rightarrow> bool \<Rightarrow> xsdfec_dev" where
  "xsdfec_wr_protect xsdfec wr_pr =
     (if wr_pr then
        (let xsdfec = xsdfec_regwrite xsdfec XSDFEC_CODE_WR_PROTECT_ADDR XSDFEC_WRITE_PROTECT_ENABLE;
             xsdfec = xsdfec_regwrite xsdfec XSDFEC_AXI_WR_PROTECT_ADDR XSDFEC_WRITE_PROTECT_ENABLE
         in xsdfec\<lparr>wr_protect := wr_pr\<rparr>)
      else
        (let xsdfec = xsdfec\<lparr>wr_protect := wr_pr\<rparr>;
             xsdfec = xsdfec_regwrite xsdfec XSDFEC_AXI_WR_PROTECT_ADDR XSDFEC_WRITE_PROTECT_DISABLE
         in xsdfec_regwrite xsdfec XSDFEC_CODE_WR_PROTECT_ADDR XSDFEC_WRITE_PROTECT_DISABLE))"

section \<open>Register bitfield codec\<close>

abbreviation (input) XSDFEC_LDPC_REG_JUMP :: u32 where "XSDFEC_LDPC_REG_JUMP \<equiv> 0x10"
abbreviation (input) XSDFEC_REG0_N_MASK :: u32 where "XSDFEC_REG0_N_MASK \<equiv> 0x0000FFFF"
abbreviation (input) XSDFEC_REG0_N_LSB :: nat where "XSDFEC_REG0_N_LSB \<equiv> 0"
abbreviation (input) XSDFEC_REG0_K_MASK :: u32 where "XSDFEC_REG0_K_MASK \<equiv> 0x7fff0000"
abbreviation (input) XSDFEC_REG0_K_LSB :: nat where "XSDFEC_REG0_K_LSB \<equiv> 16"

definition xsdfec_reg0_write :: "xsdfec_dev \<Rightarrow> u32 \<Rightarrow> u32 \<Rightarrow> u32 \<Rightarrow> int \<times> xsdfec_dev" where
  "xsdfec_reg0_write xsdfec n k offset =
     (let xsdfec = (if n AND NOT XSDFEC_REG0_N_MASK \<noteq> 0
                    then dev_err xsdfec ''N value is beyond 16 bits'' else xsdfec);
          n = n AND XSDFEC_REG0_N_MASK;
          n = push_bit XSDFEC_REG0_N_LSB n;
          xsdfec = (if k AND XSDFEC_REG0_K_MASK \<noteq> 0
                    then dev_err xsdfec ''K value is beyond 16 bits'' else xsdfec);
          k = push_bit XSDFEC_REG0_K_LSB k AND XSDFEC_REG0_K_MASK;
          wdata = k OR n
      in if XSDFEC_LDPC_CODE_REG0_ADDR_BASE + offset * XSDFEC_LDPC_REG_JUMP
              > XSDFEC_LDPC_CODE_REG0_ADDR_HIGH
         then (- EINVAL, dev_err xsdfec ''Writing outside of LDPC reg0 space'')
         else (0, xsdfec_regwrite xsdfec
                    (XSDFEC_LDPC_CODE_REG0_ADDR_BASE + offset * XSDFEC_LDPC_REG_JUMP) wdata))"

definition xsdfec_collect_ldpc_reg0 ::
  "xsdfec_dev \<Rightarrow> u32 \<Rightarrow> xsdfec_ldpc_params \<Rightarrow> int \<times> xsdfec_dev \<times> xsdfec_ldpc_params" where
  "xsdfec_collect_ldpc_reg0 xsdfec code_id ldpc_params =
     (let reg_addr = XSDFEC_LDPC_CODE_REG0_ADDR_BASE + code_id * XSDFEC_LDPC_REG_JUMP
      in if reg_addr > XSDFEC_LDPC_CODE_REG0_ADDR_HIGH
         then (- EINVAL, dev_err xsdfec ''Accessing outside of LDPC reg0 for code_id'', ldpc_params)
         else (let (reg_value, xsdfec) = xsdfec_regread xsdfec reg_addr;
                   ldpc_params = ldpc_params\<lparr>ldpc_n :=
                     drop_bit XSDFEC_REG0_N_LSB reg_value AND XSDFEC_REG0_N_MASK\<rparr>;
                   ldpc_params = ldpc_params\<lparr>ldpc_k :=
                     drop_bit XSDFEC_REG0_K_LSB reg_value AND XSDFEC_REG0_K_MASK\<rparr>
               in (0, xsdfec, ldpc_params)))"

abbreviation (input) XSDFEC_REG1_PSIZE_MASK :: u32 where "XSDFEC_REG1_PSIZE_MASK \<equiv> 0x000001ff"
abbreviation (input) XSDFEC_REG1_NO_PACKING_MASK :: u32 where "XSDFEC_REG1_NO_PACKING_MASK \<equiv> 0x00000400"
abbreviation (input) XSDFEC_REG1_NO_PACKING_LSB :: nat where "XSDFEC_REG1_NO_PACKING_LSB \<equiv> 10"
abbreviation (input) XSDFEC_REG1_NM_MASK :: u32 where "XSDFEC_REG1_NM_MASK \<equiv> 0x000ff800"
abbreviation (input) XSDFEC_REG1_NM_LSB :: nat where "XSDFEC_REG1_NM_LSB \<equiv> 11"

definition xsdfec_reg1_write ::
  "xsdfec_dev \<Rightarrow> u32 \<Rightarrow> u32 \<Rightarrow> u32 \<Rightarrow> u32 \<Rightarrow> int \<times> xsdfec_dev" where
  "xsdfec_reg1_write xsdfec psize no_packing nm offset =
     (let xsdfec = (if psize AND NOT XSDFEC_REG1_PSIZE_MASK \<noteq> 0
                    then dev_err xsdfec ''Psize is beyond 10 bits'' else xsdfec);
          psize = psize AND XSDFEC_REG1_PSIZE_MASK;
          xsdfec = (if no_packing \<noteq> 0 \<and> no_packing \<noteq> 1
                    then dev_err xsdfec ''No-packing bit register invalid'' else xsdfec);
          no_packing = push_bit XSDFEC_REG1_NO_PACKING_LSB no_packing AND XSDFEC_REG1_NO_PACKING_MASK;
          xsdfec = (if nm AND NOT (drop_bit XSDFEC_REG1_NM_LSB XSDFEC_REG1_NM_MASK) \<noteq> 0
                    then dev_err xsdfec ''NM is beyond 10 bits'' else xsdfec);
          nm = push_bit XSDFEC_REG1_NM_LSB nm AND XSDFEC_REG1_NM_MASK;
          wdata = nm OR no_packing OR psize
      in if XSDFEC_LDPC_CODE_REG1_ADDR_BASE + offset * XSDFEC_LDPC_REG_JUMP
              > XSDFEC_LDPC_CODE_REG1_ADDR_HIGH
         then (- EINVAL, dev_err xsdfec ''Writing outside of LDPC reg1 space'')
         else (0, xsdfec_regwrite xsdfec
                    (XSDFEC_LDPC_CODE_REG1_ADDR_BASE + offset * XSDFEC_LDPC_REG_JUMP) wdata))"

definition xsdfec_collect_ldpc_reg1 ::
  "xsdfec_dev \<Rightarrow> u32 \<Rightarrow> xsdfec_ldpc_params \<Rightarrow> int \<times> xsdfec_dev \<times> xsdfec_ldpc_params" where
  "xsdfec_collect_ldpc_reg1 xsdfec code_id ldpc_params =
     (let reg_addr = XSDFEC_LDPC_CODE_REG1_ADDR_BASE + code_id * XSDFEC_LDPC_REG_JUMP
      in if reg_addr > XSDFEC_LDPC_CODE_REG1_ADDR_HIGH
         then (- EINVAL, dev_err xsdfec ''Accessing outside of LDPC reg1 for code_id'', ldpc_params)
         else (let (reg_value, xsdfec) = xsdfec_regread xsdfec reg_addr;
                   ldpc_params = ldpc_params\<lparr>ldpc_psize := reg_value AND XSDFEC_REG1_PSIZE_MASK\<rparr>;
                   ldpc_params = ldpc_params\<lparr>ldpc_no_packing :=
                     drop_bit XSDFEC_REG1_NO_PACKING_LSB reg_value AND XSDFEC_REG1_NO_PACKING_MASK\<rparr>;
                   ldpc_params = ldpc_params\<lparr>ldpc_nm :=
                     drop_bit XSDFEC_REG1_NM_LSB reg_value AND XSDFEC_REG1_NM_MASK\<rparr>
               in (0, xsdfec, ldpc_params)))"

abbreviation (input) XSDFEC_REG2_NLAYERS_MASK :: u32 where "XSDFEC_REG2_NLAYERS_MASK \<equiv> 0x000001FF"
abbreviation (input) XSDFEC_REG2_NLAYERS_LSB :: nat where "XSDFEC_REG2_NLAYERS_LSB \<equiv> 0"
abbreviation (input) XSDFEC_REG2_NNMQC_MASK :: u32 where "XSDFEC_REG2_NNMQC_MASK \<equiv> 0x000FFE00"
abbreviation (input) XSDFEC_REG2_NMQC_LSB :: nat where "XSDFEC_REG2_NMQC_LSB \<equiv> 9"
abbreviation (input) XSDFEC_REG2_NORM_TYPE_MASK :: u32 where "XSDFEC_REG2_NORM_TYPE_MASK \<equiv> 0x00100000"
abbreviation (input) XSDFEC_REG2_NORM_TYPE_LSB :: nat where "XSDFEC_REG2_NORM_TYPE_LSB \<equiv> 20"
abbreviation (input) XSDFEC_REG2_SPECIAL_QC_MASK :: u32 where "XSDFEC_REG2_SPECIAL_QC_MASK \<equiv> 0x00200000"
abbreviation (input) XSDFEC_REG2_SPEICAL_QC_LSB :: nat where "XSDFEC_REG2_SPEICAL_QC_LSB \<equiv> 21"
abbreviation (input) XSDFEC_REG2_NO_FINAL_PARITY_MASK :: u32 where
  "XSDFEC_REG2_NO_FINAL_PARITY_MASK \<equiv> 0x00400000"
abbreviation (input) XSDFEC_REG2_NO_FINAL_PARITY_LSB :: nat where "XSDFEC_REG2_NO_FINAL_PARITY_LSB \<equiv> 22"
abbreviation (input) XSDFEC_REG2_MAX_SCHEDULE_MASK :: u32 where "XSDFEC_REG2_MAX_SCHEDULE_MASK \<equiv> 0x01800000"
abbreviation (input) XSDFEC_REG2_MAX_SCHEDULE_LSB :: nat where "XSDFEC_REG2_MAX_SCHEDULE_LSB \<equiv> 23"

definition xsdfec_reg2_write ::
  "xsdfec_dev \<Rightarrow> u32 \<Rightarrow> u32 \<Rightarrow> u32 \<Rightarrow> u32 \<Rightarrow> u32 \<Rightarrow> u32 \<Rightarrow> u32 \<Rightarrow> int \<times> xsdfec_dev" where
  "xsdfec_reg2_write xsdfec nlayers nmqc norm_type special_qc no_final_parity max_schedule offset =
     (let xsdfec = (if nlayers AND NOT (drop_bit XSDFEC_REG2_NLAYERS_LSB XSDFEC_REG2_NLAYERS_MASK) \<noteq> 0
                    then dev_err xsdfec ''Nlayers exceeds 9 bits'' else xsdfec);
          nlayers = nlayers AND XSDFEC_REG2_NLAYERS_MASK;
          xsdfec = (if nmqc AND NOT (drop_bit XSDFEC_REG2_NMQC_LSB XSDFEC_REG2_NNMQC_MASK) \<noteq> 0
                    then dev_err xsdfec ''NMQC exceeds 11 bits'' else xsdfec);
          nmqc = push_bit XSDFEC_REG2_NMQC_LSB nmqc AND XSDFEC_REG2_NNMQC_MASK;
          xsdfec = (if norm_type > 1 then dev_err xsdfec ''Norm type is invalid'' else xsdfec);
          norm_type = push_bit XSDFEC_REG2_NORM_TYPE_LSB norm_type AND XSDFEC_REG2_NORM_TYPE_MASK;
          xsdfec = (if special_qc > 1 then dev_err xsdfec ''Special QC in invalid'' else xsdfec);
          special_qc = push_bit XSDFEC_REG2_SPEICAL_QC_LSB special_qc AND XSDFEC_REG2_SPECIAL_QC_MASK;
          xsdfec = (if no_final_parity > 1
                    then dev_err xsdfec ''No final parity check invalid'' else xsdfec);
          no_final_parity =
            push_bit XSDFEC_REG2_NO_FINAL_PARITY_LSB no_final_parity AND XSDFEC_REG2_NO_FINAL_PARITY_MASK;
          xsdfec = (if max_schedule AND
                         NOT (drop_bit XSDFEC_REG2_MAX_SCHEDULE_LSB XSDFEC_REG2_MAX_SCHEDULE_MASK) \<noteq> 0
                    then dev_err xsdfec ''Max Schdule exceeds 2 bits'' else xsdfec);
          max_schedule =
            push_bit XSDFEC_REG2_MAX_SCHEDULE_LSB max_schedule AND XSDFEC_REG2_MAX_SCHEDULE_MASK;
          wdata = max_schedule OR no_final_parity OR special_qc OR norm_type OR nmqc OR nlayers
      in if XSDFEC_LDPC_CODE_REG2_ADDR_BASE + offset * XSDFEC_LDPC_REG_JUMP
              > XSDFEC_LDPC_CODE_REG2_ADDR_HIGH
         then (- EINVAL, dev_err xsdfec ''Writing outside of LDPC reg2 space'')
         else (0, xsdfec_regwrite xsdfec
                    (XSDFEC_LDPC_CODE_REG2_ADDR_BASE + offset * XSDFEC_LDPC_REG_JUMP) wdata))"

definition xsdfec_collect_ldpc_reg2 ::
  "xsdfec_dev \<Rightarrow> u32 \<Rightarrow> xsdfec_ldpc_params \<Rightarrow> int \<times> xsdfec_dev \<times> xsdfec_ldpc_params" where
  "xsdfec_collect_ldpc_reg2 xsdfec code_id ldpc_params =
     (let reg_addr = XSDFEC_LDPC_CODE_REG2_ADDR_BASE + code_id * XSDFEC_LDPC_REG_JUMP
      in if reg_addr > XSDFEC_LDPC_CODE_REG2_ADDR_HIGH
         then (- EINVAL, dev_err xsdfec ''Accessing outside of LDPC reg2 for code_id'', ldpc_params)
         else (let (reg_value, xsdfec) = xsdfec_regread xsdfec reg_addr;
                   ldpc_params = ldpc_params\<lparr>ldpc_nlayers :=
                     drop_bit XSDFEC_REG2_NLAYERS_LSB reg_value AND XSDFEC_REG2_NLAYERS_MASK\<rparr>;
                   ldpc_params = ldpc_params\<lparr>ldpc_nmqc :=
                     drop_bit XSDFEC_REG2_NMQC_LSB reg_value AND XSDFEC_REG2_NNMQC_MASK\<rparr>;
                   ldpc_params = ldpc_params\<lparr>ldpc_norm_type :=
                     drop_bit XSDFEC_REG2_NORM_TYPE_LSB reg_value AND XSDFEC_REG2_NORM_TYPE_MASK\<rparr>;
                   ldpc_params = ldpc_params\<lparr>ldpc_special_qc :=
                     drop_bit XSDFEC_REG2_SPEICAL_QC_LSB reg_value AND XSDFEC_REG2_SPECIAL_QC_MASK\<rparr>;
                   ldpc_params = ldpc_params\<lparr>ldpc_no_final_parity :=
                     drop_bit XSDFEC_REG2_NO_FINAL_PARITY_LSB reg_value
                       AND XSDFEC_REG2_NO_FINAL_PARITY_MASK\<rparr>;
                   ldpc_params = ldpc_params\<lparr>ldpc_max_schedule :=
                     drop_bit XSDFEC_REG2_MAX_SCHEDULE_LSB reg_value AND XSDFEC_REG2_MAX_SCHEDULE_MASK\<rparr>
               in (0, xsdfec, ldpc_params)))"

abbreviation (input) XSDFEC_REG3_LA_OFF_LSB :: nat where "XSDFEC_REG3_LA_OFF_LSB \<equiv> 8"
abbreviation (input) XSDFEC_REG3_QC_OFF_LSB :: nat where "XSDFEC_REG3_QC_OFF_LSB \<equiv> 16"

text \<open>
  \<open>xsdfec_reg3_write\<close> takes \<open>u8 sc_off\<close>, \<open>u8 la_off\<close> and \<open>u16 qc_off\<close>; they are
  widened again before the shifts.
\<close>

definition xsdfec_reg3_write ::
  "xsdfec_dev \<Rightarrow> 8 word \<Rightarrow> 8 word \<Rightarrow> 16 word \<Rightarrow> u32 \<Rightarrow> int \<times> xsdfec_dev" where
  "xsdfec_reg3_write xsdfec sc_off la_off qc_off offset =
     (let wdata = push_bit XSDFEC_REG3_QC_OFF_LSB (ucast qc_off) OR
                  push_bit XSDFEC_REG3_LA_OFF_LSB (ucast la_off) OR ucast sc_off
      in if XSDFEC_LDPC_CODE_REG3_ADDR_BASE + offset * XSDFEC_LDPC_REG_JUMP
              > XSDFEC_LDPC_CODE_REG3_ADDR_HIGH
         then (- EINVAL, dev_err xsdfec ''Writing outside of LDPC reg3 space'')
         else (0, xsdfec_regwrite xsdfec
                    (XSDFEC_LDPC_CODE_REG3_ADDR_BASE + offset * XSDFEC_LDPC_REG_JUMP) wdata))"

text \<open>The three offsets are taken from \<open>reg_addr\<close>, as the source does, not from \<open>reg_value\<close>.\<close>

definition xsdfec_collect_ldpc_reg3 ::
  "xsdfec_dev \<Rightarrow> u32 \<Rightarrow> xsdfec_ldpc_params \<Rightarrow> int \<times> xsdfec_dev \<times> xsdfec_ldpc_params" where
  "xsdfec_collect_ldpc_reg3 xsdfec code_id ldpc_params =
     (let reg_addr = XSDFEC_LDPC_CODE_REG3_ADDR_BASE + code_id * XSDFEC_LDPC_REG_JUMP
      in if reg_addr > XSDFEC_LDPC_CODE_REG3_ADDR_HIGH
         then (- EINVAL, dev_err xsdfec ''Accessing outside of LDPC reg3 for code_id'', ldpc_params)
         else (let (reg_value, xsdfec) = xsdfec_regread xsdfec reg_addr;
                   ldpc_params = ldpc_params\<lparr>ldpc_qc_off :=
                     drop_bit XSDFEC_REG3_QC_OFF_LSB reg_addr AND 0xFF\<rparr>;
                   ldpc_params = ldpc_params\<lparr>ldpc_la_off :=
                     drop_bit XSDFEC_REG3_LA_OFF_LSB reg_addr AND 0xFF\<rparr>;
                   ldpc_params = ldpc_params\<lparr>ldpc_sc_off := reg_addr AND 0xFF\<rparr>
               in (0, xsdfec, ldpc_params)))"

section \<open>Table window manager\<close>

text \<open>
  Each table function checks \<open>XSDFEC_REG_WIDTH_JUMP * (offset + len)\<close>, computed in
  \<open>u32\<close>, against the depth of its table and then runs
  \<open>for (reg = 0; reg < len; reg++)\<close>. The loop body runs once for every index below
  \<open>len\<close>; the write functions return the final \<open>int reg\<close>, which is \<open>len\<close> read as a
  signed 32-bit value.
\<close>

abbreviation (input) XSDFEC_SC_TABLE_DEPTH :: u32 where "XSDFEC_SC_TABLE_DEPTH \<equiv> 0x3fc"
abbreviation (input) XSDFEC_REG_WIDTH_JUMP :: u32 where "XSDFEC_REG_WIDTH_JUMP \<equiv> 4"
abbreviation (input) XSDFEC_LA_TABLE_DEPTH :: u32 where "XSDFEC_LA_TABLE_DEPTH \<equiv> 0xFFC"
abbreviation (input) XSDFEC_QC_TABLE_DEPTH :: u32 where "XSDFEC_QC_TABLE_DEPTH \<equiv> 0x7FFC"

definition xsdfec_sc_table_write ::
  "uapi \<Rightarrow> xsdfec_dev \<Rightarrow> u32 \<Rightarrow> (nat \<Rightarrow> u32) \<Rightarrow> u32 \<Rightarrow> int \<times> xsdfec_dev" where
  "xsdfec_sc_table_write h xsdfec offset sc_ptr len =
     (if XSDFEC_REG_WIDTH_JUMP * (offset + len) > XSDFEC_SC_TABLE_DEPTH
      then (- EINVAL, dev_err xsdfec ''Write exceeds SC table length'')
      else (sint len,
            fold (\<lambda>reg xsdfec. xsdfec_regwrite xsdfec
                    (XSDFEC_LDPC_SC_TABLE_ADDR_BASE h + (offset + of_nat reg) * XSDFEC_REG_WIDTH_JUMP)
                    (sc_ptr reg))
                 [0..<unat len] xsdfec))"

definition xsdfec_collect_sc_table ::
  "uapi \<Rightarrow> xsdfec_dev \<Rightarrow> u32 \<Rightarrow> (nat \<Rightarrow> u32) \<Rightarrow> u32 \<Rightarrow> int \<times> xsdfec_dev \<times> (nat \<Rightarrow> u32)" where
  "xsdfec_collect_sc_table h xsdfec offset sc_ptr len =
     (let deepest_reach = XSDFEC_REG_WIDTH_JUMP * (offset + len)
      in if deepest_reach > XSDFEC_SC_TABLE_DEPTH
         then (- EINVAL, dev_err xsdfec ''Access will exceed SC table length'', sc_ptr)
         else (0,
               fold (\<lambda>reg (xsdfec, sc_ptr).
                       (let reg_addr = XSDFEC_LDPC_SC_TABLE_ADDR_BASE h +
                                       (offset + of_nat reg) * XSDFEC_REG_WIDTH_JUMP;
                            (v, xsdfec) = xsdfec_regread xsdfec reg_addr
                        in (xsdfec, sc_ptr(reg := v))))
                    [0..<unat len] (xsdfec, sc_ptr)))"

definition xsdfec_la_table_write ::
  "uapi \<Rightarrow> xsdfec_dev \<Rightarrow> u32 \<Rightarrow> (nat \<Rightarrow> u32) \<Rightarrow> u32 \<Rightarrow> int \<times> xsdfec_dev" where
  "xsdfec_la_table_write h xsdfec offset la_ptr len =
     (if XSDFEC_REG_WIDTH_JUMP * (offset + len) > XSDFEC_LA_TABLE_DEPTH
      then (- EINVAL, dev_err xsdfec ''Write exceeds LA table length'')
      else (sint len,
            fold (\<lambda>reg xsdfec. xsdfec_regwrite xsdfec
                    (XSDFEC_LDPC_LA_TABLE_ADDR_BASE h + (offset + of_nat reg) * XSDFEC_REG_WIDTH_JUMP)
                    (la_ptr reg))
                 [0..<unat len] xsdfec))"

definition xsdfec_collect_la_table ::
  "uapi \<Rightarrow> xsdfec_dev \<Rightarrow> u32 \<Rightarrow> (nat \<Rightarrow> u32) \<Rightarrow> u32 \<Rightarrow> int \<times> xsdfec_dev \<times> (nat \<Rightarrow> u32)" where
  "xsdfec_collect_la_table h xsdfec offset la_ptr len =
     (let deepest_reach = XSDFEC_REG_WIDTH_JUMP * (offset + len)
      in if deepest_reach > XSDFEC_LA_TABLE_DEPTH
         then (- EINVAL, dev_err xsdfec ''Access will exceed LA table length'', la_ptr)
         else (0,
               fold (\<lambda>reg (xsdfec, la_ptr).
                       (let reg_addr = XSDFEC_LDPC_LA_TABLE_ADDR_BASE h +
                                       (offset + of_nat reg) * XSDFEC_REG_WIDTH_JUMP;
                            (v, xsdfec) = xsdfec_regread xsdfec reg_addr
                        in (xsdfec, la_ptr(reg := v))))
                    [0..<unat len] (xsdfec, la_ptr)))"

definition xsdfec_qc_table_write ::
  "uapi \<Rightarrow> xsdfec_dev \<Rightarrow> u32 \<Rightarrow> (nat \<Rightarrow> u32) \<Rightarrow> u32 \<Rightarrow> int \<times> xsdfec_dev" where
  "xsdfec_qc_table_write h xsdfec offset qc_ptr len =
     (if XSDFEC_REG_WIDTH_JUMP * (offset + len) > XSDFEC_QC_TABLE_DEPTH
      then (- EINVAL, dev_err xsdfec ''Write exceeds QC table length'')
      else (sint len,
            fold (\<lambda>reg xsdfec. xsdfec_regwrite xsdfec
                    (XSDFEC_LDPC_QC_TABLE_ADDR_BASE h + (offset + of_nat reg) * XSDFEC_REG_WIDTH_JUMP)
                    (qc_ptr reg))
                 [0..<unat len] xsdfec))"

definition xsdfec_collect_qc_table ::
  "uapi \<Rightarrow> xsdfec_dev \<Rightarrow> u32 \<Rightarrow> (nat \<Rightarrow> u32) \<Rightarrow> u32 \<Rightarrow> int \<times> xsdfec_dev \<times> (nat \<Rightarrow> u32)" where
  "xsdfec_collect_qc_table h xsdfec offset qc_ptr len =
     (let deepest_reach = XSDFEC_REG_WIDTH_JUMP * (offset + len)
      in if deepest_reach > XSDFEC_QC_TABLE_DEPTH
         then (- EINVAL, dev_err xsdfec ''Access will exceed QC table length'', qc_ptr)
         else (0,
               fold (\<lambda>reg (xsdfec, qc_ptr).
                       (let reg_addr = XSDFEC_LDPC_QC_TABLE_ADDR_BASE h +
                                       (offset + of_nat reg) * XSDFEC_REG_WIDTH_JUMP;
                            (v, xsdfec) = xsdfec_regread xsdfec reg_addr
                        in (xsdfec, qc_ptr(reg := v))))
                    [0..<unat len] (xsdfec, qc_ptr)))"

section \<open>The user-space side of a request\<close>

text \<open>
  What the kernel environment answers during one request: whether the ioctl argument
  is a null pointer, the results of \<open>access_ok\<close>, whether \<open>kzalloc\<close> fails, the number of
  bytes \<open>copy_from_user\<close> and \<open>copy_to_user\<close> leave uncopied (0 is success), and the
  object behind the pointer, read at the type the command expects.
\<close>

record xsdfec_irq =
  enable_isr :: bool
  enable_ecc_isr :: bool

record xsdfec_turbo =
  turbo_alg :: u32
  turbo_scale :: u32

record xsdfec_status =
  status_fec_id :: u32
  status_state :: xsdfec_state
  status_activity :: u32

record xsdfec_stats =
  stats_isr_err_count :: u32
  stats_cecc_count :: u32
  stats_uecc_count :: u32

record uarg =
  arg_null :: bool
  access_ok_write :: bool
  access_ok_read :: bool
  kzalloc_fails :: bool
  copy_from_user_left :: nat
  copy_to_user_left :: nat
  arg_irq :: xsdfec_irq
  arg_turbo :: xsdfec_turbo
  arg_ldpc :: xsdfec_ldpc_params
  arg_order :: u32
  arg_bypass :: "64 word"

datatype ioctl_out =
  NoOut
| OutStatus xsdfec_status
| OutConfig xsdfec_config
| OutStats xsdfec_stats
| OutTurbo xsdfec_turbo
| OutLdpc xsdfec_ldpc_params
| OutActive bool

section \<open>LDPC programming protocol\<close>

definition xsdfec_add_ldpc :: "uapi \<Rightarrow> xsdfec_dev \<Rightarrow> uarg \<Rightarrow> int \<times> xsdfec_dev" where
  "xsdfec_add_ldpc h xsdfec arg =
     (if kzalloc_fails arg then (- ENOMEM, xsdfec)
      else
       (let ldpc = arg_ldpc arg; err = int (copy_from_user_left arg)
        in if err \<noteq> 0
           then (err, dev_err xsdfec ''xsdfec_add_ldpc failed to copy from user for SDFEC'')
           else if code (config xsdfec) = XSDFEC_TURBO_CODE
           then (err, dev_err xsdfec ''xsdfec_add_ldpc: Unable to write LDPC to SDFEC check DT'')
           else
            (let xsdfec = (if wr_protect xsdfec then xsdfec_wr_protect xsdfec False else xsdfec);
                 (err, xsdfec) = xsdfec_reg0_write xsdfec (ldpc_n ldpc) (ldpc_k ldpc) (ldpc_code_id ldpc)
             in if err \<noteq> 0 then (err, xsdfec)
                else
                 (let (err, xsdfec) = xsdfec_reg1_write xsdfec (ldpc_psize ldpc)
                                        (ldpc_no_packing ldpc) (ldpc_nm ldpc) (ldpc_code_id ldpc)
                  in if err \<noteq> 0 then (err, xsdfec)
                     else
                      (let (err, xsdfec) = xsdfec_reg2_write xsdfec (ldpc_nlayers ldpc) (ldpc_nmqc ldpc)
                                             (ldpc_norm_type ldpc) (ldpc_special_qc ldpc)
                                             (ldpc_no_final_parity ldpc) (ldpc_max_schedule ldpc)
                                             (ldpc_code_id ldpc)
                       in if err \<noteq> 0 then (err, xsdfec)
                          else
                           (let (err, xsdfec) = xsdfec_reg3_write xsdfec (ucast (ldpc_sc_off ldpc))
                                                  (ucast (ldpc_la_off ldpc)) (ucast (ldpc_qc_off ldpc))
                                                  (ldpc_code_id ldpc)
                            in if err \<noteq> 0 then (err, xsdfec)
                               else
                                (let (err, xsdfec) = xsdfec_sc_table_write h xsdfec (ldpc_sc_off ldpc)
                                                       (ldpc_sc_table ldpc) (ldpc_nlayers ldpc)
                                 in if err < 0 then (err, xsdfec)
                                    else
                                     (let (err, xsdfec) = xsdfec_la_table_write h xsdfec
                                                            (4 * ldpc_la_off ldpc)
                                                            (ldpc_la_table ldpc) (ldpc_nlayers ldpc)
                                      in if err < 0 then (err, xsdfec)
                                         else
                                          (let (err, xsdfec) = xsdfec_qc_table_write h xsdfec
                                                                 (4 * ldpc_qc_off ldpc)
                                                                 (ldpc_qc_table ldpc) (ldpc_nqc ldpc)
                                           in if err < 0 then (err, xsdfec)
                                              else (0, xsdfec))))))))))"

text \<open>
  The result carries what reached the caller's buffer: \<open>Some\<close> descriptor when
  \<open>copy_to_user\<close> copied everything, \<open>None\<close> otherwise. The function ends in
  \<open>return 0\<close> after the copy, whatever \<open>err\<close> holds.
\<close>

definition xsdfec_get_ldpc_code_params ::
  "uapi \<Rightarrow> xsdfec_dev \<Rightarrow> uarg \<Rightarrow> int \<times> xsdfec_dev \<times> xsdfec_ldpc_params option" where
  "xsdfec_get_ldpc_code_params h xsdfec arg =
     (if code (config xsdfec) = XSDFEC_TURBO_CODE
      then (- EIO, dev_err xsdfec ''xsdfec_get_ldpc_code_params: SDFEC is configured for TURBO, check DT'',
            None)
      else if kzalloc_fails arg then (- ENOMEM, xsdfec, None)
      else
       (let ldpc_params = arg_ldpc arg; err = int (copy_from_user_left arg)
        in if err \<noteq> 0
           then (err, dev_err xsdfec
                        ''xsdfec_get_ldpc_code_params failed to copy from user for SDFEC'', None)
           else
            (let (err, xsdfec, ldpc_params) =
                   xsdfec_collect_ldpc_reg0 xsdfec (ldpc_code_id ldpc_params) ldpc_params
             in if err \<noteq> 0 then (err, xsdfec, None)
                else
                 (let (err, xsdfec, ldpc_params) =
                        xsdfec_collect_ldpc_reg1 xsdfec (ldpc_code_id ldpc_params) ldpc_params
                  in if err \<noteq> 0 then (err, xsdfec, None)
                     else
                      (let (err, xsdfec, ldpc_params) =
                             xsdfec_collect_ldpc_reg2 xsdfec (ldpc_code_id ldpc_params) ldpc_params
                       in if err \<noteq> 0 then (err, xsdfec, None)
                          else
                           (let (err, xsdfec, ldpc_params) =
                                  xsdfec_collect_ldpc_reg3 xsdfec (ldpc_code_id ldpc_params) ldpc_params
                            in if err \<noteq> 0 then (err, xsdfec, None)
                               else
                                (let (err, xsdfec, sc) =
                                       xsdfec_collect_sc_table h xsdfec (ldpc_sc_off ldpc_params)
                                         (ldpc_sc_table ldpc_params) (ldpc_nlayers ldpc_params);
                                     ldpc_params = ldpc_params\<lparr>ldpc_sc_table := sc\<rparr>
                                 in if err < 0 then (err, xsdfec, None)
                                    else
                                     (let (err, xsdfec, la) =
                                            xsdfec_collect_la_table h xsdfec
                                              (4 * ldpc_la_off ldpc_params)
                                              (ldpc_la_table ldpc_params) (ldpc_nlayers ldpc_params);
                                          ldpc_params = ldpc_params\<lparr>ldpc_la_table := la\<rparr>
                                      in if err < 0 then (err, xsdfec, None)
                                         else
                                          (let (err, xsdfec, qc) =
                                                 xsdfec_collect_qc_table h xsdfec
                                                   (4 * ldpc_qc_off ldpc_params)
                                                   (ldpc_qc_table ldpc_params) (ldpc_nqc ldpc_params);
                                               ldpc_params = ldpc_params\<lparr>ldpc_qc_table := qc\<rparr>
                                           in if err < 0 then (err, xsdfec, None)
                                              else
                                               (let err = int (copy_to_user_left arg)
                                                in if err \<noteq> 0
                                                   then (0, dev_err xsdfec
                                                              ''xsdfec_get_ldpc_code_params failed for SDFEC'',
                                                         None)
                                                   else (0, xsdfec, Some ldpc_params)))))))))))"

section \<open>Status, configuration and turbo requests\<close>

abbreviation (input) XSDFEC_IS_ACTIVITY_SET :: u32 where "XSDFEC_IS_ACTIVITY_SET \<equiv> 0x1"

definition xsdfec_get_status :: "xsdfec_dev \<Rightarrow> uarg \<Rightarrow> int \<times> xsdfec_dev \<times> ioctl_out" where
  "xsdfec_get_status xsdfec arg =
     (let (v, xsdfec) = xsdfec_regread xsdfec XSDFEC_ACTIVE_ADDR;
          status = \<lparr>status_fec_id = fec_id (config xsdfec), status_state = state xsdfec,
                    status_activity = v AND XSDFEC_IS_ACTIVITY_SET\<rparr>;
          err = int (copy_to_user_left arg)
      in if err \<noteq> 0 then (- EFAULT, dev_err xsdfec ''xsdfec_get_status failed for SDFEC'', NoOut)
         else (err, xsdfec, OutStatus status))"

definition xsdfec_get_config :: "xsdfec_dev \<Rightarrow> uarg \<Rightarrow> int \<times> xsdfec_dev \<times> ioctl_out" where
  "xsdfec_get_config xsdfec arg =
     (let err = int (copy_to_user_left arg)
      in if err \<noteq> 0 then (- EFAULT, dev_err xsdfec ''xsdfec_get_config failed for SDFEC'', NoOut)
         else (err, xsdfec, OutConfig (config xsdfec)))"

definition xsdfec_isr_enable :: "xsdfec_dev \<Rightarrow> bool \<Rightarrow> int \<times> xsdfec_dev" where
  "xsdfec_isr_enable xsdfec enable =
     (if enable then
        (let xsdfec = xsdfec_regwrite xsdfec XSDFEC_IER_ADDR XSDFEC_ISR_MASK;
             (mask_read, xsdfec) = xsdfec_regread xsdfec XSDFEC_IMR_ADDR
         in if mask_read AND XSDFEC_ISR_MASK \<noteq> 0
            then (- EIO, dev_err xsdfec ''SDFEC enabling irq with IER failed'')
            else (0, xsdfec))
      else
        (let xsdfec = xsdfec_regwrite xsdfec XSDFEC_IDR_ADDR XSDFEC_ISR_MASK;
             (mask_read, xsdfec) = xsdfec_regread xsdfec XSDFEC_IMR_ADDR
         in if mask_read AND XSDFEC_ISR_MASK \<noteq> XSDFEC_ISR_MASK
            then (- EIO, dev_err xsdfec ''SDFEC disabling irq with IDR failed'')
            else (0, xsdfec)))"

definition xsdfec_ecc_isr_enable :: "xsdfec_dev \<Rightarrow> bool \<Rightarrow> int \<times> xsdfec_dev" where
  "xsdfec_ecc_isr_enable xsdfec enable =
     (if enable then
        (let xsdfec = xsdfec_regwrite xsdfec XSDFEC_ECC_IER_ADDR XSDFEC_ECC_ISR_MASK;
             (mask_read, xsdfec) = xsdfec_regread xsdfec XSDFEC_ECC_IMR_ADDR
         in if mask_read AND XSDFEC_ECC_ISR_MASK \<noteq> 0
            then (- EIO, dev_err xsdfec ''SDFEC enabling ECC irq with ECC IER failed'')
            else (0, xsdfec))
      else
        (let xsdfec = xsdfec_regwrite xsdfec XSDFEC_ECC_IDR_ADDR XSDFEC_ECC_ISR_MASK;
             (mask_read, xsdfec) = xsdfec_regread xsdfec XSDFEC_ECC_IMR_ADDR
         in if mask_read AND XSDFEC_ECC_ISR_MASK \<noteq> XSDFEC_ECC_ISR_MASK
            then (- EIO, dev_err xsdfec ''SDFEC disable ECC irq with ECC IDR failed'')
            else (0, xsdfec)))"

definition xsdfec_set_irq :: "xsdfec_dev \<Rightarrow> uarg \<Rightarrow> int \<times> xsdfec_dev" where
  "xsdfec_set_irq xsdfec arg =
     (let irq = arg_irq arg; err = int (copy_from_user_left arg)
      in if err \<noteq> 0 then (- EFAULT, dev_err xsdfec ''xsdfec_set_irq failed for SDFEC'')
         else
          (let (err, xsdfec) = (if enable_isr irq then xsdfec_isr_enable xsdfec True else (err, xsdfec))
           in if enable_isr irq \<and> err < 0 then (err, xsdfec)
              else
               (let (err, xsdfec) =
                      (if enable_ecc_isr irq then xsdfec_ecc_isr_enable xsdfec True else (err, xsdfec))
                in if enable_ecc_isr irq \<and> err < 0 then (err, xsdfec)
                   else (0, xsdfec))))"

abbreviation (input) XSDFEC_TURBO_SCALE_MASK :: u32 where "XSDFEC_TURBO_SCALE_MASK \<equiv> 0xF"
abbreviation (input) XSDFEC_TURBO_SCALE_BIT_POS :: nat where "XSDFEC_TURBO_SCALE_BIT_POS \<equiv> 8"

definition xsdfec_set_turbo :: "xsdfec_dev \<Rightarrow> uarg \<Rightarrow> int \<times> xsdfec_dev" where
  "xsdfec_set_turbo xsdfec arg =
     (let turbo = arg_turbo arg; err = int (copy_from_user_left arg)
      in if err \<noteq> 0 then (- EFAULT, dev_err xsdfec ''xsdfec_set_turbo failed for SDFEC'')
         else if code (config xsdfec) = XSDFEC_LDPC_CODE
         then (- EIO, dev_err xsdfec ''xsdfec_set_turbo: Unable to write Turbo to SDFEC check DT'')
         else
          (let xsdfec = (if code (config xsdfec) = XSDFEC_CODE_INVALID
                         then xsdfec\<lparr>config := (config xsdfec)\<lparr>code := XSDFEC_TURBO_CODE\<rparr>\<rparr>
                         else xsdfec);
               xsdfec = (if wr_protect xsdfec then xsdfec_wr_protect xsdfec False else xsdfec);
               turbo_write = push_bit XSDFEC_TURBO_SCALE_BIT_POS
                               (turbo_scale turbo AND XSDFEC_TURBO_SCALE_MASK) OR turbo_alg turbo
           in (err, xsdfec_regwrite xsdfec XSDFEC_TURBO_ADDR turbo_write)))"

definition xsdfec_get_turbo :: "xsdfec_dev \<Rightarrow> uarg \<Rightarrow> int \<times> xsdfec_dev \<times> ioctl_out" where
  "xsdfec_get_turbo xsdfec arg =
     (if code (config xsdfec) = XSDFEC_LDPC_CODE
      then (- EIO, dev_err xsdfec ''xsdfec_get_turbo: SDFEC is configured for LDPC, check DT'', NoOut)
      else
       (let (reg_value, xsdfec) = xsdfec_regread xsdfec XSDFEC_TURBO_ADDR;
            turbo_params = \<lparr>turbo_alg = reg_value AND 0x1,
                            turbo_scale = drop_bit XSDFEC_TURBO_SCALE_BIT_POS
                                            (reg_value AND XSDFEC_TURBO_SCALE_MASK)\<rparr>;
            err = int (copy_to_user_left arg)
        in if err \<noteq> 0 then (- EFAULT, dev_err xsdfec ''xsdfec_get_turbo failed for SDFEC'', NoOut)
           else (err, xsdfec, OutTurbo turbo_params)))"

section \<open>Order, bypass, activity and the stream configuration\<close>

definition xsdfec_set_order :: "xsdfec_dev \<Rightarrow> uarg \<Rightarrow> int \<times> xsdfec_dev" where
  "xsdfec_set_order xsdfec arg =
     (let ord = arg_order arg;
          order_out_of_range = (ord \<le> XSDFEC_INVALID_ORDER \<or> ord \<ge> XSDFEC_ORDER_MAX)
      in if order_out_of_range
         then (- EINVAL, dev_err xsdfec ''xsdfec_set_order invalid order value for SDFEC'')
         else if state xsdfec = XSDFEC_STARTED
         then (- EIO, dev_err xsdfec
                        ''xsdfec_set_order attempting to set Order while started for SDFEC'')
         else
          (let xsdfec = xsdfec_regwrite xsdfec XSDFEC_ORDER_ADDR (ord - 1)
           in (0, xsdfec\<lparr>config := (config xsdfec)\<lparr>order := ord\<rparr>\<rparr>)))"

definition xsdfec_set_bypass :: "xsdfec_dev \<Rightarrow> uarg \<Rightarrow> int \<times> xsdfec_dev" where
  "xsdfec_set_bypass xsdfec arg =
     (let bypass = arg_bypass arg
      in if bypass > 1
         then (- EINVAL, dev_err xsdfec ''xsdfec_set_bypass invalid bypass value for SDFEC'')
         else if state xsdfec = XSDFEC_STARTED
         then (- EIO, dev_err xsdfec
                        ''xsdfec_set_bypass attempting to set bypass while started for SDFEC'')
         else (0, xsdfec_regwrite xsdfec XSDFEC_BYPASS_ADDR (ucast bypass)))"

definition xsdfec_is_active :: "xsdfec_dev \<Rightarrow> int \<times> xsdfec_dev \<times> ioctl_out" where
  "xsdfec_is_active xsdfec =
     (let (reg_value, xsdfec) = xsdfec_regread xsdfec XSDFEC_ACTIVE_ADDR
      in (0, xsdfec, OutActive (reg_value AND XSDFEC_IS_ACTIVITY_SET \<noteq> 0)))"

fun xsdfec_translate_axis_width_cfg_val :: "xsdfec_axis_width \<Rightarrow> u32" where
  "xsdfec_translate_axis_width_cfg_val XSDFEC_1x128b = 0"
| "xsdfec_translate_axis_width_cfg_val XSDFEC_2x128b = 1"
| "xsdfec_translate_axis_width_cfg_val XSDFEC_4x128b = 2"

definition xsdfec_translate_axis_words_cfg_val :: "xsdfec_axis_word_include \<Rightarrow> u32" where
  "xsdfec_translate_axis_words_cfg_val axis_word_inc_cfg =
     (if axis_word_inc_cfg = XSDFEC_FIXED_VALUE \<or> axis_word_inc_cfg = XSDFEC_IN_BLOCK then 0
      else if axis_word_inc_cfg = XSDFEC_PER_AXI_TRANSACTION then 1
      else 0)"

abbreviation (input) XSDFEC_AXIS_DOUT_WORDS_LSB :: nat where "XSDFEC_AXIS_DOUT_WORDS_LSB \<equiv> 5"
abbreviation (input) XSDFEC_AXIS_DOUT_WIDTH_LSB :: nat where "XSDFEC_AXIS_DOUT_WIDTH_LSB \<equiv> 3"
abbreviation (input) XSDFEC_AXIS_DIN_WORDS_LSB :: nat where "XSDFEC_AXIS_DIN_WORDS_LSB \<equiv> 2"
abbreviation (input) XSDFEC_AXIS_DIN_WIDTH_LSB :: nat where "XSDFEC_AXIS_DIN_WIDTH_LSB \<equiv> 0"

definition xsdfec_cfg_axi_streams :: "xsdfec_dev \<Rightarrow> int \<times> xsdfec_dev" where
  "xsdfec_cfg_axi_streams xsdfec =
     (let cfg = config xsdfec;
          dout_words_field = xsdfec_translate_axis_words_cfg_val (dout_word_include cfg);
          dout_width_field = xsdfec_translate_axis_width_cfg_val (dout_width cfg);
          din_words_field = xsdfec_translate_axis_words_cfg_val (din_word_include cfg);
          din_width_field = xsdfec_translate_axis_width_cfg_val (din_width cfg);
          reg_value = push_bit XSDFEC_AXIS_DOUT_WORDS_LSB dout_words_field;
          reg_value = reg_value OR push_bit XSDFEC_AXIS_DOUT_WIDTH_LSB dout_width_field;
          reg_value = reg_value OR push_bit XSDFEC_AXIS_DIN_WORDS_LSB din_words_field;
          reg_value = reg_value OR push_bit XSDFEC_AXIS_DIN_WIDTH_LSB din_width_field
      in (0, xsdfec_regwrite xsdfec XSDFEC_AXIS_WIDTH_ADDR reg_value))"

section \<open>Device state machine\<close>

definition xsdfec_start :: "xsdfec_dev \<Rightarrow> int \<times> xsdfec_dev" where
  "xsdfec_start xsdfec =
     (if code (config xsdfec) = XSDFEC_CODE_INVALID
      then (- EINVAL, dev_err xsdfec ''xsdfec_start : set code before start for SDFEC'')
      else
       (let (regread, xsdfec) = xsdfec_regread xsdfec XSDFEC_FEC_CODE_ADDR;
            regread = regread AND 0x1
        in if regread \<noteq> code_val (code (config xsdfec)) - 1
           then (- EINVAL, dev_err xsdfec
                             ''xsdfec_start SDFEC HW code does not match driver code'')
           else if order (config xsdfec) = XSDFEC_INVALID_ORDER
           then (- EINVAL, dev_err xsdfec ''xsdfec_start : set order before starting SDFEC'')
           else
            (let xsdfec = xsdfec_regwrite xsdfec XSDFEC_AXIS_ENABLE_ADDR XSDFEC_AXIS_ENABLE_MASK;
                 xsdfec = xsdfec_wr_protect xsdfec True
             in (0, xsdfec\<lparr>state := XSDFEC_STARTED\<rparr>))))"

definition xsdfec_stop :: "xsdfec_dev \<Rightarrow> int \<times> xsdfec_dev" where
  "xsdfec_stop xsdfec =
     (let xsdfec = (if state xsdfec \<noteq> XSDFEC_STARTED
                    then dev_err xsdfec ''Device not started correctly'' else xsdfec);
          xsdfec = xsdfec_wr_protect xsdfec False;
          (regread, xsdfec) = xsdfec_regread xsdfec XSDFEC_AXIS_ENABLE_ADDR;
          regread = regread AND NOT XSDFEC_AXIS_ENABLE_MASK;
          xsdfec = xsdfec_regwrite xsdfec XSDFEC_AXIS_ENABLE_ADDR regread
      in (0, xsdfec\<lparr>state := XSDFEC_STOPPED\<rparr>))"

definition xsdfec_clear_stats :: "xsdfec_dev \<Rightarrow> int \<times> xsdfec_dev" where
  "xsdfec_clear_stats xsdfec =
     (0, xsdfec\<lparr>isr_err_count := 0, uecc_count := 0, cecc_count := 0\<rparr>)"

definition xsdfec_get_stats :: "xsdfec_dev \<Rightarrow> uarg \<Rightarrow> int \<times> xsdfec_dev \<times> ioctl_out" where
  "xsdfec_get_stats xsdfec arg =
     (let user_stats = \<lparr>stats_isr_err_count = isr_err_count xsdfec,
                         stats_cecc_count = cecc_count xsdfec,
                         stats_uecc_count = uecc_count xsdfec\<rparr>;
          err = int (copy_to_user_left arg)
      in if err \<noteq> 0 then (- EFAULT, dev_err xsdfec ''xsdfec_get_stats failed for SDFEC'', NoOut)
         else (err, xsdfec, OutStats user_stats))"

definition xsdfec_set_default_config :: "xsdfec_dev \<Rightarrow> int \<times> xsdfec_dev" where
  "xsdfec_set_default_config xsdfec =
     (let xsdfec = xsdfec\<lparr>state := XSDFEC_INIT\<rparr>;
          xsdfec = xsdfec\<lparr>config := (config xsdfec)\<lparr>order := XSDFEC_INVALID_ORDER\<rparr>\<rparr>;
          xsdfec = xsdfec\<lparr>wr_protect := False\<rparr>;
          xsdfec = xsdfec_wr_protect xsdfec False;
          xsdfec = xsdfec_regwrite xsdfec XSDFEC_FEC_CODE_ADDR (code_val (code (config xsdfec)) - 1);
          (_, xsdfec) = xsdfec_cfg_axi_streams xsdfec
      in (0, xsdfec))"

section \<open>Control dispatch\<close>

text \<open>
  The kernel's ioctl number layout (asm-generic/ioctl.h): the type is bits 8 to 15 of
  the command and the direction bits 30 and 31, with \<open>_IOC_NONE = 0\<close>,
  \<open>_IOC_WRITE = 1\<close> and \<open>_IOC_READ = 2\<close>.
\<close>

definition IOC_TYPE :: "u32 \<Rightarrow> u32" where
  "IOC_TYPE cmd = drop_bit 8 cmd AND 0xFF"

definition IOC_DIR :: "u32 \<Rightarrow> u32" where
  "IOC_DIR cmd = drop_bit 30 cmd AND 0x3"

abbreviation (input) IOC_NONE :: u32 where "IOC_NONE \<equiv> 0"
abbreviation (input) IOC_WRITE :: u32 where "IOC_WRITE \<equiv> 1"
abbreviation (input) IOC_READ :: u32 where "IOC_READ \<equiv> 2"

text \<open>
  \<open>xsdfec_dev_ioctl\<close> for a file whose \<open>private_data\<close> is the device. Its
  \<open>switch (cmd)\<close> statement is \<open>xsdfec_ioctl_switch\<close>: the chain of comparisons in
  the order of the cases, \<open>rval\<close> keeping its initial \<open>-EINVAL\<close> in the default case.
\<close>

definition xsdfec_ioctl_switch ::
  "uapi \<Rightarrow> xsdfec_dev \<Rightarrow> u32 \<Rightarrow> uarg \<Rightarrow> int \<Rightarrow> int \<times> xsdfec_dev \<times> ioctl_out" where
  "xsdfec_ioctl_switch h xsdfec cmd arg rval =
     (if cmd = XSDFEC_START_DEV h
      then (let (rval, xsdfec) = xsdfec_start xsdfec in (rval, xsdfec, NoOut))
      else if cmd = XSDFEC_STOP_DEV h
      then (let (rval, xsdfec) = xsdfec_stop xsdfec in (rval, xsdfec, NoOut))
      else if cmd = XSDFEC_CLEAR_STATS h
      then (let (rval, xsdfec) = xsdfec_clear_stats xsdfec in (rval, xsdfec, NoOut))
      else if cmd = XSDFEC_GET_STATS h then xsdfec_get_stats xsdfec arg
      else if cmd = XSDFEC_GET_STATUS h then xsdfec_get_status xsdfec arg
      else if cmd = XSDFEC_GET_CONFIG h then xsdfec_get_config xsdfec arg
      else if cmd = XSDFEC_SET_DEFAULT_CONFIG h
      then (let (rval, xsdfec) = xsdfec_set_default_config xsdfec in (rval, xsdfec, NoOut))
      else if cmd = XSDFEC_SET_IRQ h
      then (let (rval, xsdfec) = xsdfec_set_irq xsdfec arg in (rval, xsdfec, NoOut))
      else if cmd = XSDFEC_SET_TURBO h
      then (let (rval, xsdfec) = xsdfec_set_turbo xsdfec arg in (rval, xsdfec, NoOut))
      else if cmd = XSDFEC_GET_TURBO h then xsdfec_get_turbo xsdfec arg
      else if cmd = XSDFEC_ADD_LDPC_CODE_PARAMS h
      then (let (rval, xsdfec) = xsdfec_add_ldpc h xsdfec arg in (rval, xsdfec, NoOut))
      else if cmd = XSDFEC_GET_LDPC_CODE_PARAMS h
      then (let (rval, xsdfec, out) = xsdfec_get_ldpc_code_params h xsdfec arg
            in (rval, xsdfec, case out of None \<Rightarrow> NoOut | Some p \<Rightarrow> OutLdpc p))
      else if cmd = XSDFEC_SET_ORDER h
      then (let (rval, xsdfec) = xsdfec_set_order xsdfec arg in (rval, xsdfec, NoOut))
      else if cmd = XSDFEC_SET_BYPASS h
      then (let (rval, xsdfec) = xsdfec_set_bypass xsdfec arg in (rval, xsdfec, NoOut))
      else if cmd = XSDFEC_IS_ACTIVE h then xsdfec_is_active xsdfec
      else (rval, dev_err xsdfec ''Undefined SDFEC IOCTL'', NoOut))"

definition xsdfec_dev_ioctl ::
  "uapi \<Rightarrow> xsdfec_dev \<Rightarrow> u32 \<Rightarrow> uarg \<Rightarrow> int \<times> xsdfec_dev \<times> ioctl_out" where
  "xsdfec_dev_ioctl h xsdfec cmd arg =
     (let rval = - EINVAL
      in if state xsdfec = XSDFEC_NEEDS_RESET \<and>
            (cmd \<noteq> XSDFEC_SET_DEFAULT_CONFIG h \<and> cmd \<noteq> XSDFEC_GET_STATUS h \<and>
             cmd \<noteq> XSDFEC_GET_STATS h \<and> cmd \<noteq> XSDFEC_CLEAR_STATS h)
         then (- EPERM, dev_err xsdfec ''SDFEC in failed state. Reset Required'', NoOut)
         else if IOC_TYPE cmd \<noteq> XSDFEC_MAGIC h
         then (- ENOTTY, dev_err xsdfec ''Not a xilinx sdfec ioctl'', NoOut)
         else if IOC_DIR cmd \<noteq> IOC_NONE \<and> arg_null arg
         then (rval, dev_err xsdfec ''xilinx sdfec ioctl argument is NULL Pointer'', NoOut)
         else
          (let err = (if IOC_DIR cmd AND IOC_READ \<noteq> 0 then \<not> access_ok_write arg
                      else if IOC_DIR cmd AND IOC_WRITE \<noteq> 0 then \<not> access_ok_read arg
                      else False)
           in if err then (- EFAULT, dev_err xsdfec ''Invalid xilinx sdfec ioctl argument'', NoOut)
              else xsdfec_ioctl_switch h xsdfec cmd arg rval))"

section \<open>Fault detection and escalation\<close>

text \<open>
  \<open>hweight32\<close> is the kernel's population count of a 32-bit word.
  \<open>atomic_add_return\<close> adds to a 32-bit counter and returns the new value as an \<open>int\<close>.
\<close>

definition hweight32 :: "u32 \<Rightarrow> nat" where
  "hweight32 w = length (filter (bit w) [0..<32])"

definition atomic_add_return :: "nat \<Rightarrow> u32 \<Rightarrow> int \<times> u32" where
  "atomic_add_return i v = (sint (v + of_nat i), v + of_nat i)"

definition xsdfec_log_ecc_errors :: "xsdfec_dev \<Rightarrow> u32 \<Rightarrow> xsdfec_dev" where
  "xsdfec_log_ecc_errors xsdfec ecc_err =
     (let cecc = ecc_err AND XSDFEC_ECC_ISR_SBE;
          uecc = ecc_err AND XSDFEC_ECC_ISR_MBE;
          (uecc_cnt, c) = atomic_add_return (hweight32 uecc) (uecc_count xsdfec);
          xsdfec = xsdfec\<lparr>uecc_count := c\<rparr>;
          xsdfec = xsdfec\<lparr>cecc_count := snd (atomic_add_return (hweight32 cecc) (cecc_count xsdfec))\<rparr>;
          xsdfec = (if uecc_cnt > 0 \<and> uecc_cnt < XSDFEC_ERROR_MAX_THRESHOLD
                    then dev_err xsdfec ''Multi-bit error on xsdfec. Needs reset'' else xsdfec)
      in xsdfec_regwrite xsdfec XSDFEC_ECC_ISR_ADDR 0)"

definition xsdfec_log_isr_errors :: "xsdfec_dev \<Rightarrow> u32 \<Rightarrow> xsdfec_dev" where
  "xsdfec_log_isr_errors xsdfec isr_err =
     (let (isr_err_cnt, c) = atomic_add_return (hweight32 isr_err) (isr_err_count xsdfec);
          xsdfec = xsdfec\<lparr>isr_err_count := c\<rparr>;
          xsdfec = (if isr_err_cnt > 0 \<and> isr_err_cnt < XSDFEC_ERROR_MAX_THRESHOLD
                    then dev_err xsdfec ''Tlast,or DIN_WORDS or DOUT_WORDS not correct'' else xsdfec)
      in xsdfec_regwrite xsdfec XSDFEC_ECC_ISR_ADDR 0)"

definition xsdfec_reset_required :: "xsdfec_dev \<Rightarrow> xsdfec_dev" where
  "xsdfec_reset_required xsdfec = xsdfec\<lparr>state := XSDFEC_NEEDS_RESET\<rparr>"

datatype irqreturn = IRQ_NONE | IRQ_HANDLED

definition xsdfec_irq_thread :: "xsdfec_dev \<Rightarrow> irqreturn \<times> xsdfec_dev" where
  "xsdfec_irq_thread xsdfec =
     (let (_, xsdfec) = xsdfec_isr_enable xsdfec False;
          (_, xsdfec) = xsdfec_ecc_isr_enable xsdfec False;
          (ecc_err, xsdfec) = xsdfec_regread xsdfec XSDFEC_ECC_ISR_ADDR;
          (isr_err, xsdfec) = xsdfec_regread xsdfec XSDFEC_ISR_ADDR;
          (ret, fatal_err, xsdfec) =
            (if ecc_err AND XSDFEC_ECC_ISR_MBE \<noteq> 0
             then (IRQ_HANDLED, True, xsdfec_reset_required (xsdfec_log_ecc_errors xsdfec ecc_err))
             else if isr_err AND XSDFEC_ISR_MASK \<noteq> 0
             then (IRQ_HANDLED, True, xsdfec_reset_required (xsdfec_log_isr_errors xsdfec isr_err))
             else if ecc_err AND XSDFEC_ECC_ISR_SBE \<noteq> 0
             then (IRQ_HANDLED, False, xsdfec_log_ecc_errors xsdfec ecc_err)
             else (IRQ_NONE, False, xsdfec));
          xsdfec = (if fatal_err then xsdfec\<lparr>waitq_woken := True\<rparr> else xsdfec);
          (_, xsdfec) = xsdfec_isr_enable xsdfec True;
          (_, xsdfec) = xsdfec_ecc_isr_enable xsdfec True
      in (ret, xsdfec))"

section \<open>Write protection and the device state\<close>

text \<open>
  The driver turns write protection on in one place only, \<open>xsdfec_start\<close>, which then
  sets the state to \<open>XSDFEC_STARTED\<close>; the only other state a protected device can take
  is \<open>XSDFEC_NEEDS_RESET\<close>, set by the interrupt thread. \<open>xsdfec_probe\<close> allocates the
  device zeroed, with the flag off. \<open>wr_protect_inv\<close> is this relation between the
  flag and the state.
\<close>

definition wr_protect_inv :: "xsdfec_dev \<Rightarrow> bool" where
  "wr_protect_inv xsdfec =
     (wr_protect xsdfec \<longrightarrow> state xsdfec = XSDFEC_STARTED \<or> state xsdfec = XSDFEC_NEEDS_RESET)"

section \<open>A concrete platform and device\<close>

text \<open>
  An instance of the header constants (table bases 0x10000, 0x18000 and 0x20000; magic
  \<open>f\<close>; command numbers 0 to 14 with the direction bits of their argument), a device as
  \<open>probe\<close> leaves it with code family LDPC, and a descriptor for code 3 with
  n = 64800, k = 32400, one layer and one quantization code, every table offset 1.
\<close>

definition example_uapi :: uapi where
  "example_uapi =
     \<lparr>XSDFEC_LDPC_SC_TABLE_ADDR_BASE = 0x10000,
      XSDFEC_LDPC_LA_TABLE_ADDR_BASE = 0x18000,
      XSDFEC_LDPC_QC_TABLE_ADDR_BASE = 0x20000,
      XSDFEC_MAGIC = 0x66,
      XSDFEC_START_DEV = 0x6600,
      XSDFEC_STOP_DEV = 0x6601,
      XSDFEC_CLEAR_STATS = 0x6602,
      XSDFEC_GET_STATS = 0x80006603,
      XSDFEC_GET_STATUS = 0x80006604,
      XSDFEC_GET_CONFIG = 0x80006605,
      XSDFEC_SET_DEFAULT_CONFIG = 0x6606,
      XSDFEC_SET_IRQ = 0x40006607,
      XSDFEC_SET_TURBO = 0x40006608,
      XSDFEC_GET_TURBO = 0x80006609,
      XSDFEC_ADD_LDPC_CODE_PARAMS = 0x4000660a,
      XSDFEC_GET_LDPC_CODE_PARAMS = 0xc000660b,
      XSDFEC_SET_ORDER = 0x4000660c,
      XSDFEC_SET_BYPASS = 0x4000660d,
      XSDFEC_IS_ACTIVE = 0x8000660e\<rparr>"

definition example_config :: xsdfec_config where
  "example_config =
     \<lparr>fec_id = 0, code = XSDFEC_LDPC_CODE, order = XSDFEC_INVALID_ORDER,
      din_width = XSDFEC_1x128b, din_word_include = XSDFEC_FIXED_VALUE,
      dout_width = XSDFEC_1x128b, dout_word_include = XSDFEC_FIXED_VALUE\<rparr>"

definition example_dev :: xsdfec_dev where
  "example_dev =
     \<lparr>regs = (\<lambda>_. 0)(XSDFEC_FEC_CODE_ADDR := 1), io_trace = [], errlog = [],
      state = XSDFEC_INIT, config = example_config, wr_protect = False,
      isr_err_count = 0, cecc_count = 0, uecc_count = 0, waitq_woken = False\<rparr>"

definition example_ldpc :: xsdfec_ldpc_params where
  "example_ldpc =
     \<lparr>ldpc_n = 64800, ldpc_k = 32400, ldpc_psize = 360, ldpc_nlayers = 1, ldpc_nqc = 1,
      ldpc_nmqc = 8, ldpc_nm = 180, ldpc_norm_type = 1, ldpc_no_packing = 0,
      ldpc_special_qc = 0, ldpc_no_final_parity = 0, ldpc_max_schedule = 0,
      ldpc_sc_off = 1, ldpc_la_off = 1, ldpc_qc_off = 1,
      ldpc_sc_table = (\<lambda>_. 0x11), ldpc_la_table = (\<lambda>_. 0x22),
      ldpc_qc_table = (\<lambda>_. 0x33), ldpc_code_id = 3\<rparr>"

text \<open>
  The device after the descriptor has been programmed, and the request that reads
  code 3 back with the caller's \<open>nqc = 1\<close>.
\<close>

definition example_programmed :: xsdfec_dev where
  "example_programmed =
     example_dev
       \<lparr>regs := (regs example_dev)
          (0x2030 := 0x7E90FD20, 0x2034 := 0x5A168, 0x2038 := 0x101001, 0x203c := 0x10101,
           0x10004 := 0x11, 0x18010 := 0x22, 0x20010 := 0x33),
        io_trace :=
          [Write 0x2030 0x7E90FD20, Write 0x2034 0x5A168, Write 0x2038 0x101001,
           Write 0x203c 0x10101, Write 0x10004 0x11, Write 0x18010 0x22, Write 0x20010 0x33]\<rparr>"

definition example_query :: xsdfec_ldpc_params where
  "example_query =
     \<lparr>ldpc_n = 0, ldpc_k = 0, ldpc_psize = 0, ldpc_nlayers = 0, ldpc_nqc = 1,
      ldpc_nmqc = 0, ldpc_nm = 0, ldpc_norm_type = 0, ldpc_no_packing = 0,
      ldpc_special_qc = 0, ldpc_no_final_parity = 0, ldpc_max_schedule = 0,
      ldpc_sc_off = 0, ldpc_la_off = 0, ldpc_qc_off = 0,
      ldpc_sc_table = (\<lambda>_. 0), ldpc_la_table = (\<lambda>_. 0),
      ldpc_qc_table = (\<lambda>_. 0), ldpc_code_id = 3\<rparr>"

definition example_arg :: uarg where
  "example_arg =
     \<lparr>arg_null = False, access_ok_write = True, access_ok_read = True, kzalloc_fails = False,
      copy_from_user_left = 0, copy_to_user_left = 0,
      arg_irq = \<lparr>enable_isr = True, enable_ecc_isr = True\<rparr>,
      arg_turbo = \<lparr>turbo_alg = 0, turbo_scale = 0\<rparr>,
      arg_ldpc = example_ldpc, arg_order = 1, arg_bypass = 0\<rparr>"

text \<open>
  Further devices: ready to start (order set), configured for Turbo, with the code
  family unset, and with the low bit of the general interrupt status register raised.
\<close>

definition example_ready :: xsdfec_dev where
  "example_ready = example_dev\<lparr>config := example_config\<lparr>order := 1\<rparr>\<rparr>"

definition example_turbo :: xsdfec_dev where
  "example_turbo = example_dev\<lparr>config := example_config\<lparr>code := XSDFEC_TURBO_CODE\<rparr>\<rparr>"

definition example_unset :: xsdfec_dev where
  "example_unset = example_dev\<lparr>config := example_config\<lparr>code := XSDFEC_CODE_INVALID\<rparr>\<rparr>"

definition example_faulted :: xsdfec_dev where
  "example_faulted = example_dev\<lparr>regs := (regs example_dev)(XSDFEC_ISR_ADDR := 1)\<rparr>"

section \<open>Properties\<close>

subsection \<open>Effect of the write functions\<close>

lemma dev_err_frame [simp]:
  "regs (dev_err xsdfec msg) = regs xsdfec"
  "io_trace (dev_err xsdfec msg) = io_trace xsdfec"
  "state (dev_err xsdfec msg) = state xsdfec"
  "config (dev_err xsdfec msg) = config xsdfec"
  "wr_protect (dev_err xsdfec msg) = wr_protect xsdfec"
  "isr_err_count (dev_err xsdfec msg) = isr_err_count xsdfec"
  "cecc_count (dev_err xsdfec msg) = cecc_count xsdfec"
  "uecc_count (dev_err xsdfec msg) = uecc_count xsdfec"
  "waitq_woken (dev_err xsdfec msg) = waitq_woken xsdfec"
  "errlog (dev_err xsdfec msg) = errlog xsdfec @ [msg]"
  by (simp_all add: dev_err_def)

lemma regwrite_frame [simp]:
  "wr_protect (xsdfec_regwrite d a v) = wr_protect d"
  "state (xsdfec_regwrite d a v) = state d"
  "config (xsdfec_regwrite d a v) = config d"
  by (simp_all add: xsdfec_regwrite_def iowrite32_def)

lemma regwrite_open:
  "\<not> wr_protect d \<Longrightarrow> io_trace (xsdfec_regwrite d a v) = io_trace d @ [Write a v]"
  "\<not> wr_protect d \<Longrightarrow> regs (xsdfec_regwrite d a v) = (regs d)(a := v)"
  by (simp_all add: xsdfec_regwrite_def iowrite32_def)

lemma wr_protect_False [simp]:
  "wr_protect (xsdfec_wr_protect d False) = False"
  "config (xsdfec_wr_protect d False) = config d"
  by (simp_all add: xsdfec_wr_protect_def Let_def)

lemma wr_protect_False_trace:
  "io_trace (xsdfec_wr_protect d False) =
     io_trace d @ [Write XSDFEC_AXI_WR_PROTECT_ADDR 0, Write XSDFEC_CODE_WR_PROTECT_ADDR 0]"
  by (simp add: xsdfec_wr_protect_def Let_def regwrite_open)

lemma reg0_write_proj:
  "fst (xsdfec_reg0_write d n k off) =
     (if XSDFEC_LDPC_CODE_REG0_ADDR_BASE + off * XSDFEC_LDPC_REG_JUMP > XSDFEC_LDPC_CODE_REG0_ADDR_HIGH
      then - EINVAL else 0)"
  "wr_protect (snd (xsdfec_reg0_write d n k off)) = wr_protect d"
  "\<not> wr_protect d \<Longrightarrow> fst (xsdfec_reg0_write d n k off) = 0 \<Longrightarrow>
     io_trace (snd (xsdfec_reg0_write d n k off)) =
       io_trace d @ [Write (XSDFEC_LDPC_CODE_REG0_ADDR_BASE + off * XSDFEC_LDPC_REG_JUMP)
                       (push_bit 16 k AND XSDFEC_REG0_K_MASK OR n AND XSDFEC_REG0_N_MASK)]"
  by (simp_all add: xsdfec_reg0_write_def Let_def regwrite_open split: if_splits)

lemma reg1_write_proj:
  "fst (xsdfec_reg1_write d psize no_packing nm off) =
     (if XSDFEC_LDPC_CODE_REG1_ADDR_BASE + off * XSDFEC_LDPC_REG_JUMP > XSDFEC_LDPC_CODE_REG1_ADDR_HIGH
      then - EINVAL else 0)"
  "wr_protect (snd (xsdfec_reg1_write d psize no_packing nm off)) = wr_protect d"
  "\<not> wr_protect d \<Longrightarrow> fst (xsdfec_reg1_write d psize no_packing nm off) = 0 \<Longrightarrow>
     io_trace (snd (xsdfec_reg1_write d psize no_packing nm off)) =
       io_trace d @ [Write (XSDFEC_LDPC_CODE_REG1_ADDR_BASE + off * XSDFEC_LDPC_REG_JUMP)
                       (push_bit 11 nm AND XSDFEC_REG1_NM_MASK OR
                        push_bit 10 no_packing AND XSDFEC_REG1_NO_PACKING_MASK OR
                        psize AND XSDFEC_REG1_PSIZE_MASK)]"
  by (simp_all add: xsdfec_reg1_write_def Let_def regwrite_open split: if_splits)

lemma reg2_write_proj:
  "fst (xsdfec_reg2_write d nlayers nmqc norm_type special_qc no_final_parity max_schedule off) =
     (if XSDFEC_LDPC_CODE_REG2_ADDR_BASE + off * XSDFEC_LDPC_REG_JUMP > XSDFEC_LDPC_CODE_REG2_ADDR_HIGH
      then - EINVAL else 0)"
  "wr_protect (snd (xsdfec_reg2_write d nlayers nmqc norm_type special_qc no_final_parity
                      max_schedule off)) = wr_protect d"
  "\<not> wr_protect d \<Longrightarrow>
   fst (xsdfec_reg2_write d nlayers nmqc norm_type special_qc no_final_parity max_schedule off) = 0 \<Longrightarrow>
     io_trace (snd (xsdfec_reg2_write d nlayers nmqc norm_type special_qc no_final_parity
                      max_schedule off)) =
       io_trace d @ [Write (XSDFEC_LDPC_CODE_REG2_ADDR_BASE + off * XSDFEC_LDPC_REG_JUMP)
                       (push_bit 23 max_schedule AND XSDFEC_REG2_MAX_SCHEDULE_MASK OR
                        push_bit 22 no_final_parity AND XSDFEC_REG2_NO_FINAL_PARITY_MASK OR
                        push_bit 21 special_qc AND XSDFEC_REG2_SPECIAL_QC_MASK OR
                        push_bit 20 norm_type AND XSDFEC_REG2_NORM_TYPE_MASK OR
                        push_bit 9 nmqc AND XSDFEC_REG2_NNMQC_MASK OR
                        nlayers AND XSDFEC_REG2_NLAYERS_MASK)]"
  by (simp_all add: xsdfec_reg2_write_def Let_def regwrite_open split: if_splits)

lemma reg3_write_proj:
  "fst (xsdfec_reg3_write d sc_off la_off qc_off off) =
     (if XSDFEC_LDPC_CODE_REG3_ADDR_BASE + off * XSDFEC_LDPC_REG_JUMP > XSDFEC_LDPC_CODE_REG3_ADDR_HIGH
      then - EINVAL else 0)"
  "wr_protect (snd (xsdfec_reg3_write d sc_off la_off qc_off off)) = wr_protect d"
  "\<not> wr_protect d \<Longrightarrow> fst (xsdfec_reg3_write d sc_off la_off qc_off off) = 0 \<Longrightarrow>
     io_trace (snd (xsdfec_reg3_write d sc_off la_off qc_off off)) =
       io_trace d @ [Write (XSDFEC_LDPC_CODE_REG3_ADDR_BASE + off * XSDFEC_LDPC_REG_JUMP)
                       (push_bit 16 (ucast qc_off) OR push_bit 8 (ucast la_off) OR ucast sc_off)]"
  by (simp_all add: xsdfec_reg3_write_def Let_def regwrite_open split: if_splits)

lemma fold_regwrite_wr_protect [simp]:
  "wr_protect (fold (\<lambda>reg d. xsdfec_regwrite d (a reg) (v reg)) xs d) = wr_protect d"
  by (induction xs arbitrary: d) simp_all

lemma fold_regwrite_trace:
  "\<not> wr_protect d \<Longrightarrow>
     io_trace (fold (\<lambda>reg d. xsdfec_regwrite d (a reg) (v reg)) xs d) =
       io_trace d @ map (\<lambda>reg. Write (a reg) (v reg)) xs"
  by (induction xs arbitrary: d) (simp_all add: regwrite_open)

lemma sc_table_write_proj:
  "fst (xsdfec_sc_table_write h d offset sc_ptr len) =
     (if XSDFEC_REG_WIDTH_JUMP * (offset + len) > XSDFEC_SC_TABLE_DEPTH then - EINVAL else sint len)"
  "wr_protect (snd (xsdfec_sc_table_write h d offset sc_ptr len)) = wr_protect d"
  "\<not> wr_protect d \<Longrightarrow> \<not> XSDFEC_REG_WIDTH_JUMP * (offset + len) > XSDFEC_SC_TABLE_DEPTH \<Longrightarrow>
     io_trace (snd (xsdfec_sc_table_write h d offset sc_ptr len)) =
       io_trace d @ map (\<lambda>reg. Write (XSDFEC_LDPC_SC_TABLE_ADDR_BASE h +
                                     (offset + of_nat reg) * XSDFEC_REG_WIDTH_JUMP) (sc_ptr reg))
                      [0..<unat len]"
  by (simp_all add: xsdfec_sc_table_write_def fold_regwrite_trace)

lemma la_table_write_proj:
  "fst (xsdfec_la_table_write h d offset la_ptr len) =
     (if XSDFEC_REG_WIDTH_JUMP * (offset + len) > XSDFEC_LA_TABLE_DEPTH then - EINVAL else sint len)"
  "wr_protect (snd (xsdfec_la_table_write h d offset la_ptr len)) = wr_protect d"
  "\<not> wr_protect d \<Longrightarrow> \<not> XSDFEC_REG_WIDTH_JUMP * (offset + len) > XSDFEC_LA_TABLE_DEPTH \<Longrightarrow>
     io_trace (snd (xsdfec_la_table_write h d offset la_ptr len)) =
       io_trace d @ map (\<lambda>reg. Write (XSDFEC_LDPC_LA_TABLE_ADDR_BASE h +
                                     (offset + of_nat reg) * XSDFEC_REG_WIDTH_JUMP) (la_ptr reg))
                      [0..<unat len]"
  by (simp_all add: xsdfec_la_table_write_def fold_regwrite_trace)

lemma qc_table_write_proj:
  "fst (xsdfec_qc_table_write h d offset qc_ptr len) =
     (if XSDFEC_REG_WIDTH_JUMP * (offset + len) > XSDFEC_QC_TABLE_DEPTH then - EINVAL else sint len)"
  "wr_protect (snd (xsdfec_qc_table_write h d offset qc_ptr len)) = wr_protect d"
  "\<not> wr_protect d \<Longrightarrow> \<not> XSDFEC_REG_WIDTH_JUMP * (offset + len) > XSDFEC_QC_TABLE_DEPTH \<Longrightarrow>
     io_trace (snd (xsdfec_qc_table_write h d offset qc_ptr len)) =
       io_trace d @ map (\<lambda>reg. Write (XSDFEC_LDPC_QC_TABLE_ADDR_BASE h +
                                     (offset + of_nat reg) * XSDFEC_REG_WIDTH_JUMP) (qc_ptr reg))
                      [0..<unat len]"
  by (simp_all add: xsdfec_qc_table_write_def fold_regwrite_trace)

subsection \<open>The concrete descriptor, step by step\<close>

text \<open>
  Programming \<open>example_ldpc\<close> into \<open>example_dev\<close> and reading code 3 back, evaluated
  one driver call at a time.
\<close>

lemma upt_0_1: "[0..<1] = [0::nat]"
  by (simp add: upt_rec)

lemmas example_defs =
  example_uapi_def example_dev_def example_arg_def example_ldpc_def example_config_def

lemmas write_defs =
  xsdfec_reg0_write_def xsdfec_reg1_write_def xsdfec_reg2_write_def xsdfec_reg3_write_def
  xsdfec_sc_table_write_def xsdfec_la_table_write_def xsdfec_qc_table_write_def
  xsdfec_regwrite_def iowrite32_def dev_err_def

lemmas read_defs =
  xsdfec_collect_ldpc_reg0_def xsdfec_collect_ldpc_reg1_def xsdfec_collect_ldpc_reg2_def
  xsdfec_collect_ldpc_reg3_def xsdfec_collect_sc_table_def xsdfec_collect_la_table_def
  xsdfec_collect_qc_table_def xsdfec_regread_def ioread32_def dev_err_def

lemma add_example: "xsdfec_add_ldpc example_uapi example_dev example_arg = (0, example_programmed)"
proof -
  define d0 where "d0 = example_dev\<lparr>regs := (regs example_dev)(0x2030 := 0x7E90FD20),
                                    io_trace := [Write 0x2030 0x7E90FD20]\<rparr>"
  define d1 where "d1 = d0\<lparr>regs := (regs d0)(0x2034 := 0x5A168),
                            io_trace := io_trace d0 @ [Write 0x2034 0x5A168]\<rparr>"
  define d2 where "d2 = d1\<lparr>regs := (regs d1)(0x2038 := 0x101001),
                            io_trace := io_trace d1 @ [Write 0x2038 0x101001]\<rparr>"
  define d3 where "d3 = d2\<lparr>regs := (regs d2)(0x203c := 0x10101),
                            io_trace := io_trace d2 @ [Write 0x203c 0x10101]\<rparr>"
  define d4 where "d4 = d3\<lparr>regs := (regs d3)(0x10004 := 0x11),
                            io_trace := io_trace d3 @ [Write 0x10004 0x11]\<rparr>"
  define d5 where "d5 = d4\<lparr>regs := (regs d4)(0x18010 := 0x22),
                            io_trace := io_trace d4 @ [Write 0x18010 0x22]\<rparr>"
  note ds = d0_def d1_def d2_def d3_def d4_def d5_def example_programmed_def
  have s0: "xsdfec_reg0_write example_dev 64800 32400 3 = (0, d0)"
    by (simp add: write_defs example_defs ds)
  have s1: "xsdfec_reg1_write d0 360 0 180 3 = (0, d1)"
    by (simp add: write_defs example_defs ds)
  have s2: "xsdfec_reg2_write d1 1 8 1 0 0 0 3 = (0, d2)"
    by (simp add: write_defs example_defs ds)
  have s3: "xsdfec_reg3_write d2 1 1 1 3 = (0, d3)"
    by (simp add: write_defs example_defs ds)
  have s4: "xsdfec_sc_table_write example_uapi d3 1 (\<lambda>_. 0x11) 1 = (1, d4)"
    by (simp add: write_defs example_defs upt_0_1 ds)
  have s5: "xsdfec_la_table_write example_uapi d4 4 (\<lambda>_. 0x22) 1 = (1, d5)"
    by (simp add: write_defs example_defs upt_0_1 ds)
  have s6: "xsdfec_qc_table_write example_uapi d5 4 (\<lambda>_. 0x33) 1 = (1, example_programmed)"
    by (simp add: write_defs example_defs upt_0_1 ds)
  have a: "\<not> kzalloc_fails example_arg" "copy_from_user_left example_arg = 0"
    "arg_ldpc example_arg = example_ldpc"
    by (simp_all add: example_arg_def)
  have l: "ldpc_n example_ldpc = 64800" "ldpc_k example_ldpc = 32400" "ldpc_code_id example_ldpc = 3"
    "ldpc_psize example_ldpc = 360" "ldpc_no_packing example_ldpc = 0" "ldpc_nm example_ldpc = 180"
    "ldpc_nlayers example_ldpc = 1" "ldpc_nmqc example_ldpc = 8" "ldpc_norm_type example_ldpc = 1"
    "ldpc_special_qc example_ldpc = 0" "ldpc_no_final_parity example_ldpc = 0"
    "ldpc_max_schedule example_ldpc = 0" "ldpc_sc_off example_ldpc = 1" "ldpc_la_off example_ldpc = 1"
    "ldpc_qc_off example_ldpc = 1" "ldpc_nqc example_ldpc = 1"
    "ldpc_sc_table example_ldpc = (\<lambda>_. 0x11)" "ldpc_la_table example_ldpc = (\<lambda>_. 0x22)"
    "ldpc_qc_table example_ldpc = (\<lambda>_. 0x33)"
    by (simp_all add: example_ldpc_def)
  have c: "code (config example_dev) = XSDFEC_LDPC_CODE" "\<not> wr_protect example_dev"
    by (simp_all add: example_dev_def example_config_def)
  show ?thesis
    unfolding xsdfec_add_ldpc_def
    by (simp add: a l c s0 s1 s2 s3 s4 s5 s6)
qed

lemma get_example:
  "\<exists>d' p. xsdfec_get_ldpc_code_params example_uapi example_programmed
            (example_arg\<lparr>arg_ldpc := example_query\<rparr>) = (0, d', Some p) \<and>
     ldpc_n p = 64800 \<and> ldpc_k p = 0 \<and> ldpc_psize p = 360 \<and> ldpc_nm p = 0 \<and>
     ldpc_nlayers p = 1 \<and> ldpc_nmqc p = 2048 \<and> ldpc_norm_type p = 0 \<and>
     ldpc_sc_table p 0 = 0 \<and> ldpc_la_table p 0 = 0 \<and> ldpc_qc_table p 0 = 0 \<and>
     io_trace d' = io_trace example_programmed @
       [Read 0x2030, Read 0x2034, Read 0x2038, Read 0x203c, Read 0x100f0, Read 0x18200, Read 0x20000]"
proof -
  define r0 where "r0 = example_programmed\<lparr>io_trace := io_trace example_programmed @ [Read 0x2030]\<rparr>"
  define r1 where "r1 = r0\<lparr>io_trace := io_trace r0 @ [Read 0x2034]\<rparr>"
  define r2 where "r2 = r1\<lparr>io_trace := io_trace r1 @ [Read 0x2038]\<rparr>"
  define r3 where "r3 = r2\<lparr>io_trace := io_trace r2 @ [Read 0x203c]\<rparr>"
  define r4 where "r4 = r3\<lparr>io_trace := io_trace r3 @ [Read 0x100f0]\<rparr>"
  define r5 where "r5 = r4\<lparr>io_trace := io_trace r4 @ [Read 0x18200]\<rparr>"
  define r6 where "r6 = r5\<lparr>io_trace := io_trace r5 @ [Read 0x20000]\<rparr>"
  define q0 where "q0 = example_query\<lparr>ldpc_n := 64800, ldpc_k := 0\<rparr>"
  define q1 where "q1 = q0\<lparr>ldpc_psize := 360, ldpc_no_packing := 0, ldpc_nm := 0\<rparr>"
  define q2 where "q2 = q1\<lparr>ldpc_nlayers := 1, ldpc_nmqc := 2048, ldpc_norm_type := 0,
                          ldpc_special_qc := 0, ldpc_no_final_parity := 0, ldpc_max_schedule := 0\<rparr>"
  define q3 where "q3 = q2\<lparr>ldpc_qc_off := 0, ldpc_la_off := 0x20, ldpc_sc_off := 0x3c\<rparr>"
  note rs = r0_def r1_def r2_def r3_def r4_def r5_def r6_def example_programmed_def
  note qs = q0_def q1_def q2_def q3_def example_query_def
  have g0: "xsdfec_collect_ldpc_reg0 example_programmed 3 example_query = (0, r0, q0)"
    by (simp add: read_defs example_defs rs qs)
  have g1: "xsdfec_collect_ldpc_reg1 r0 3 q0 = (0, r1, q1)"
    by (simp add: read_defs example_defs rs qs)
  have g2: "xsdfec_collect_ldpc_reg2 r1 3 q1 = (0, r2, q2)"
    by (simp add: read_defs example_defs rs qs)
  have g3: "xsdfec_collect_ldpc_reg3 r2 3 q2 = (0, r3, q3)"
    by (simp add: read_defs example_defs rs qs)
  have g4: "xsdfec_collect_sc_table example_uapi r3 0x3c (\<lambda>_. 0) 1 = (0, r4, (\<lambda>_. 0)(0 := 0))"
    by (simp add: read_defs example_defs upt_0_1 rs)
  have g5: "xsdfec_collect_la_table example_uapi r4 0x80 (\<lambda>_. 0) 1 = (0, r5, (\<lambda>_. 0)(0 := 0))"
    by (simp add: read_defs example_defs upt_0_1 rs)
  have g6: "xsdfec_collect_qc_table example_uapi r5 0 (\<lambda>_. 0) 1 = (0, r6, (\<lambda>_. 0)(0 := 0))"
    by (simp add: read_defs example_defs upt_0_1 rs)
  have a: "\<not> kzalloc_fails (example_arg\<lparr>arg_ldpc := example_query\<rparr>)"
    "copy_from_user_left (example_arg\<lparr>arg_ldpc := example_query\<rparr>) = 0"
    "copy_to_user_left (example_arg\<lparr>arg_ldpc := example_query\<rparr>) = 0"
    by (simp_all add: example_arg_def)
  have c: "code (config example_programmed) = XSDFEC_LDPC_CODE"
    by (simp add: example_programmed_def example_dev_def example_config_def)
  have q: "ldpc_code_id example_query = 3" "ldpc_code_id q0 = 3" "ldpc_code_id q1 = 3"
    "ldpc_code_id q2 = 3" "ldpc_sc_off q3 = 0x3c" "ldpc_la_off q3 = 0x20" "ldpc_qc_off q3 = 0"
    "ldpc_nlayers q3 = 1" "ldpc_nqc q3 = 1"
    "ldpc_sc_table q3 = (\<lambda>_. 0)" "ldpc_la_table q3 = (\<lambda>_. 0)" "ldpc_qc_table q3 = (\<lambda>_. 0)"
    by (simp_all add: qs)
  have e: "xsdfec_get_ldpc_code_params example_uapi example_programmed
            (example_arg\<lparr>arg_ldpc := example_query\<rparr>) =
           (0, r6, Some (q3\<lparr>ldpc_sc_table := (\<lambda>_. 0)(0 := 0), ldpc_la_table := (\<lambda>_. 0)(0 := 0),
                            ldpc_qc_table := (\<lambda>_. 0)(0 := 0)\<rparr>))"
    unfolding xsdfec_get_ldpc_code_params_def
    by (simp add: a c q g0 g1 g2 g3 g4 g5 g6)
  show ?thesis
    unfolding e by (simp add: qs r0_def r1_def r2_def r3_def r4_def r5_def r6_def)
qed

subsection \<open>Order and placement of the programming writes\<close>

lemma unprotect_first [simp]:
  "wr_protect (if wr_protect d then xsdfec_wr_protect d False else d) = False"
  "io_trace (if wr_protect d then xsdfec_wr_protect d False else d) =
     io_trace d @ (if wr_protect d
                   then [Write XSDFEC_AXI_WR_PROTECT_ADDR 0, Write XSDFEC_CODE_WR_PROTECT_ADDR 0]
                   else [])"
  by (simp_all add: wr_protect_False_trace)

text \<open>
  C4 (amended). When \<open>xsdfec_add_ldpc\<close> returns 0 on a device whose code family is
  not Turbo, the hardware accesses it made are, in order: the two write-protect
  registers cleared if protection was on, the four code-descriptor registers, then
  the three table payloads sc, la and qc. The la and qc payloads start at table word
  \<open>4 * la_off\<close> and \<open>4 * qc_off\<close>; the sc payload starts at table word \<open>sc_off\<close>.
  Lengths are \<open>nlayers\<close>, \<open>nlayers\<close> and \<open>nqc\<close>.
\<close>

theorem add_ldpc_write_order:
  assumes "code (config d) \<noteq> XSDFEC_TURBO_CODE"
    and "xsdfec_add_ldpc h d arg = (0, d')"
  shows "io_trace d' =
     io_trace d @
     (if wr_protect d
      then [Write XSDFEC_AXI_WR_PROTECT_ADDR 0, Write XSDFEC_CODE_WR_PROTECT_ADDR 0] else []) @
     [Write (XSDFEC_LDPC_CODE_REG0_ADDR_BASE + ldpc_code_id (arg_ldpc arg) * XSDFEC_LDPC_REG_JUMP)
        (push_bit 16 (ldpc_k (arg_ldpc arg)) AND XSDFEC_REG0_K_MASK OR
         ldpc_n (arg_ldpc arg) AND XSDFEC_REG0_N_MASK),
      Write (XSDFEC_LDPC_CODE_REG1_ADDR_BASE + ldpc_code_id (arg_ldpc arg) * XSDFEC_LDPC_REG_JUMP)
        (push_bit 11 (ldpc_nm (arg_ldpc arg)) AND XSDFEC_REG1_NM_MASK OR
         push_bit 10 (ldpc_no_packing (arg_ldpc arg)) AND XSDFEC_REG1_NO_PACKING_MASK OR
         ldpc_psize (arg_ldpc arg) AND XSDFEC_REG1_PSIZE_MASK),
      Write (XSDFEC_LDPC_CODE_REG2_ADDR_BASE + ldpc_code_id (arg_ldpc arg) * XSDFEC_LDPC_REG_JUMP)
        (push_bit 23 (ldpc_max_schedule (arg_ldpc arg)) AND XSDFEC_REG2_MAX_SCHEDULE_MASK OR
         push_bit 22 (ldpc_no_final_parity (arg_ldpc arg)) AND XSDFEC_REG2_NO_FINAL_PARITY_MASK OR
         push_bit 21 (ldpc_special_qc (arg_ldpc arg)) AND XSDFEC_REG2_SPECIAL_QC_MASK OR
         push_bit 20 (ldpc_norm_type (arg_ldpc arg)) AND XSDFEC_REG2_NORM_TYPE_MASK OR
         push_bit 9 (ldpc_nmqc (arg_ldpc arg)) AND XSDFEC_REG2_NNMQC_MASK OR
         ldpc_nlayers (arg_ldpc arg) AND XSDFEC_REG2_NLAYERS_MASK),
      Write (XSDFEC_LDPC_CODE_REG3_ADDR_BASE + ldpc_code_id (arg_ldpc arg) * XSDFEC_LDPC_REG_JUMP)
        (push_bit 16 (ucast (ucast (ldpc_qc_off (arg_ldpc arg)) :: 16 word)) OR
         push_bit 8 (ucast (ucast (ldpc_la_off (arg_ldpc arg)) :: 8 word)) OR
         ucast (ucast (ldpc_sc_off (arg_ldpc arg)) :: 8 word))] @
     map (\<lambda>reg. Write (XSDFEC_LDPC_SC_TABLE_ADDR_BASE h +
                        (ldpc_sc_off (arg_ldpc arg) + of_nat reg) * XSDFEC_REG_WIDTH_JUMP)
                     (ldpc_sc_table (arg_ldpc arg) reg))
         [0..<unat (ldpc_nlayers (arg_ldpc arg))] @
     map (\<lambda>reg. Write (XSDFEC_LDPC_LA_TABLE_ADDR_BASE h +
                        (4 * ldpc_la_off (arg_ldpc arg) + of_nat reg) * XSDFEC_REG_WIDTH_JUMP)
                     (ldpc_la_table (arg_ldpc arg) reg))
         [0..<unat (ldpc_nlayers (arg_ldpc arg))] @
     map (\<lambda>reg. Write (XSDFEC_LDPC_QC_TABLE_ADDR_BASE h +
                        (4 * ldpc_qc_off (arg_ldpc arg) + of_nat reg) * XSDFEC_REG_WIDTH_JUMP)
                     (ldpc_qc_table (arg_ldpc arg) reg))
         [0..<unat (ldpc_nqc (arg_ldpc arg))]"
  using assms
  by (auto simp add: xsdfec_add_ldpc_def Let_def case_prod_beta
      reg0_write_proj reg1_write_proj reg2_write_proj reg3_write_proj
      sc_table_write_proj la_table_write_proj qc_table_write_proj wr_protect_False_trace
      split: if_splits)

theorem add_ldpc_write_order_witness:
  "code (config example_dev) \<noteq> XSDFEC_TURBO_CODE \<and>
   xsdfec_add_ldpc example_uapi example_dev example_arg = (0, example_programmed) \<and>
   io_trace example_programmed =
     [Write 0x2030 0x7E90FD20, Write 0x2034 0x5A168, Write 0x2038 0x101001, Write 0x203c 0x10101,
      Write (0x10000 + 1 * 4) 0x11, Write (0x18000 + 4 * 1 * 4) 0x22, Write (0x20000 + 4 * 1 * 4) 0x33]"
proof -
  have c: "code (config example_dev) \<noteq> XSDFEC_TURBO_CODE"
    by (simp add: example_dev_def example_config_def)
  show ?thesis
    using c add_example add_ldpc_write_order [OF c add_example]
    by (simp add: example_programmed_def example_dev_def)
qed

text \<open>
  C4 as stated fails: with \<open>sc_off = 1\<close> the sc payload is written at table word 1
  (byte offset 4 of the table), not at table word 4 (byte offset 16).
\<close>

theorem add_ldpc_sc_offset_counterexample:
  "ldpc_sc_off (arg_ldpc example_arg) = 1 \<and>
   ldpc_sc_table (arg_ldpc example_arg) 0 = 0x11 \<and>
   fst (xsdfec_add_ldpc example_uapi example_dev example_arg) = 0 \<and>
   io_trace (snd (xsdfec_add_ldpc example_uapi example_dev example_arg)) =
     [Write 0x2030 0x7E90FD20, Write 0x2034 0x5A168, Write 0x2038 0x101001, Write 0x203c 0x10101,
      Write (XSDFEC_LDPC_SC_TABLE_ADDR_BASE example_uapi + 1 * 4) 0x11,
      Write (XSDFEC_LDPC_LA_TABLE_ADDR_BASE example_uapi + (4 * 1) * 4) 0x22,
      Write (XSDFEC_LDPC_QC_TABLE_ADDR_BASE example_uapi + (4 * 1) * 4) 0x33] \<and>
   Write (XSDFEC_LDPC_SC_TABLE_ADDR_BASE example_uapi + (4 * 1) * 4) 0x11
     \<notin> set (io_trace (snd (xsdfec_add_ldpc example_uapi example_dev example_arg)))"
  using add_example
  by (simp add: example_programmed_def example_dev_def example_arg_def example_ldpc_def
      example_uapi_def)


subsection \<open>Write-protection gate\<close>

text \<open>
  C8. A register write attempted while the write-protect flag is set makes no hardware
  access: the register window and the access trace are as before (only the message is
  logged), so reading the target register gives the same value before and after.
\<close>

theorem regwrite_protected_no_access:
  "wr_protect xsdfec \<Longrightarrow>
     regs (xsdfec_regwrite xsdfec addr val) = regs xsdfec \<and>
     io_trace (xsdfec_regwrite xsdfec addr val) = io_trace xsdfec \<and>
     fst (xsdfec_regread (xsdfec_regwrite xsdfec addr val) addr) = fst (xsdfec_regread xsdfec addr)"
  by (simp add: xsdfec_regwrite_def xsdfec_regread_def ioread32_def)

theorem regwrite_protected_no_access_witness:
  "wr_protect (example_dev\<lparr>wr_protect := True\<rparr>) \<and>
   regs (xsdfec_regwrite (example_dev\<lparr>wr_protect := True\<rparr>) 0x2000 7)
     = regs (example_dev\<lparr>wr_protect := True\<rparr>) \<and>
   io_trace (xsdfec_regwrite (example_dev\<lparr>wr_protect := True\<rparr>) 0x2000 7) = [] \<and>
   fst (xsdfec_regread (xsdfec_regwrite (example_dev\<lparr>wr_protect := True\<rparr>) 0x2000 7) 0x2000) = 0"
  using regwrite_protected_no_access [of "example_dev\<lparr>wr_protect := True\<rparr>" "0x2000" 7]
  by (simp add: example_dev_def xsdfec_regread_def ioread32_def)

subsection \<open>Control dispatch gate\<close>

lemma start_ret: "fst (xsdfec_start d) \<in> {0, - EINVAL}"
  by (simp add: xsdfec_start_def xsdfec_regread_def ioread32_def Let_def split: prod.splits)

lemma stop_ret: "fst (xsdfec_stop d) = 0"
  by (simp add: xsdfec_stop_def Let_def split: prod.splits)

lemma clear_stats_ret: "fst (xsdfec_clear_stats d) = 0"
  by (simp add: xsdfec_clear_stats_def)

lemma get_stats_ret: "fst (xsdfec_get_stats d a) \<in> {0, - EFAULT}"
  by (simp add: xsdfec_get_stats_def Let_def)

lemma get_status_ret: "fst (xsdfec_get_status d a) \<in> {0, - EFAULT}"
  by (simp add: xsdfec_get_status_def Let_def split: prod.splits)

lemma get_config_ret: "fst (xsdfec_get_config d a) \<in> {0, - EFAULT}"
  by (simp add: xsdfec_get_config_def Let_def)

lemma set_default_config_ret: "fst (xsdfec_set_default_config d) = 0"
  by (simp add: xsdfec_set_default_config_def Let_def split: prod.splits)

lemma switch_whitelisted_ret:
  assumes "cmd = XSDFEC_SET_DEFAULT_CONFIG h \<or> cmd = XSDFEC_GET_STATUS h \<or>
           cmd = XSDFEC_GET_STATS h \<or> cmd = XSDFEC_CLEAR_STATS h"
  shows "fst (xsdfec_ioctl_switch h d cmd arg rval) \<in> {0, - EINVAL, - EFAULT}"
proof -
  have "fst (xsdfec_ioctl_switch h d cmd arg rval) \<in>
          {fst (xsdfec_start d), fst (xsdfec_stop d), fst (xsdfec_clear_stats d),
           fst (xsdfec_get_stats d arg), fst (xsdfec_get_status d arg),
           fst (xsdfec_get_config d arg), fst (xsdfec_set_default_config d)}"
    using assms unfolding xsdfec_ioctl_switch_def
    by (elim disjE) (simp_all add: case_prod_beta)
  then show ?thesis
    using start_ret[of d] stop_ret[of d] clear_stats_ret[of d] get_stats_ret[of d arg]
      get_status_ret[of d arg] get_config_ret[of d arg] set_default_config_ret[of d]
    by auto
qed

text \<open>
  C7. While the device state is \<open>XSDFEC_NEEDS_RESET\<close>, every command other than
  set-default-config, get-status, get-stats and clear-stats returns \<open>-EPERM\<close> and leaves
  the register window and the access trace as they were (no hardware access); the
  four commands are not stopped by the gate: whatever they return, it is not \<open>-EPERM\<close>.
\<close>

theorem ioctl_needs_reset_gate:
  assumes "state xsdfec = XSDFEC_NEEDS_RESET"
  shows "(cmd \<notin> {XSDFEC_SET_DEFAULT_CONFIG h, XSDFEC_GET_STATUS h, XSDFEC_GET_STATS h, XSDFEC_CLEAR_STATS h} \<longrightarrow>
            fst (xsdfec_dev_ioctl h xsdfec cmd arg) = - EPERM \<and>
            regs (fst (snd (xsdfec_dev_ioctl h xsdfec cmd arg))) = regs xsdfec \<and>
            io_trace (fst (snd (xsdfec_dev_ioctl h xsdfec cmd arg))) = io_trace xsdfec) \<and>
         (cmd \<in> {XSDFEC_SET_DEFAULT_CONFIG h, XSDFEC_GET_STATUS h, XSDFEC_GET_STATS h, XSDFEC_CLEAR_STATS h} \<longrightarrow>
            fst (xsdfec_dev_ioctl h xsdfec cmd arg) \<noteq> - EPERM)"
proof (intro conjI impI)
  assume c: "cmd \<in> {XSDFEC_SET_DEFAULT_CONFIG h, XSDFEC_GET_STATUS h, XSDFEC_GET_STATS h, XSDFEC_CLEAR_STATS h}"
  then have w: "cmd = XSDFEC_SET_DEFAULT_CONFIG h \<or> cmd = XSDFEC_GET_STATUS h \<or>
           cmd = XSDFEC_GET_STATS h \<or> cmd = XSDFEC_CLEAR_STATS h" by simp
  have "fst (xsdfec_dev_ioctl h xsdfec cmd arg) \<in> {- ENOTTY, - EINVAL, - EFAULT, fst (xsdfec_ioctl_switch h xsdfec cmd arg (- EINVAL))}"
    using w unfolding xsdfec_dev_ioctl_def Let_def by auto
  with switch_whitelisted_ret[OF w, of xsdfec arg "- EINVAL"]
  show "fst (xsdfec_dev_ioctl h xsdfec cmd arg) \<noteq> - EPERM"
    by auto
qed (use assms in \<open>simp_all add: xsdfec_dev_ioctl_def\<close>)

theorem ioctl_needs_reset_gate_witness:
  "state (example_dev\<lparr>state := XSDFEC_NEEDS_RESET\<rparr>) = XSDFEC_NEEDS_RESET \<and>
   fst (xsdfec_dev_ioctl example_uapi (example_dev\<lparr>state := XSDFEC_NEEDS_RESET\<rparr>)
          (XSDFEC_START_DEV example_uapi) example_arg) = - EPERM \<and>
   io_trace (fst (snd (xsdfec_dev_ioctl example_uapi (example_dev\<lparr>state := XSDFEC_NEEDS_RESET\<rparr>)
          (XSDFEC_START_DEV example_uapi) example_arg))) = [] \<and>
   fst (xsdfec_dev_ioctl example_uapi (example_dev\<lparr>state := XSDFEC_NEEDS_RESET\<rparr>)
          (XSDFEC_CLEAR_STATS example_uapi) example_arg) \<noteq> - EPERM"
  using ioctl_needs_reset_gate [of "example_dev\<lparr>state := XSDFEC_NEEDS_RESET\<rparr>"
          "XSDFEC_START_DEV example_uapi" example_uapi example_arg]
        ioctl_needs_reset_gate [of "example_dev\<lparr>state := XSDFEC_NEEDS_RESET\<rparr>"
          "XSDFEC_CLEAR_STATS example_uapi" example_uapi example_arg]
  by (simp add: example_uapi_def example_dev_def)

subsection \<open>Write protection follows the device state\<close>

text \<open>
  Apart from \<open>xsdfec_start\<close>, \<open>xsdfec_stop\<close> and \<open>xsdfec_set_default_config\<close>, no
  request changes the state, and none but \<open>xsdfec_start\<close> can turn the write-protect
  flag on; the interrupt thread leaves the flag alone and changes the state only to
  \<open>XSDFEC_NEEDS_RESET\<close>. Hence \<open>wr_protect_inv\<close> is kept by every request
  (\<open>ioctl_inv\<close>) and by the interrupt thread (\<open>irq_thread_inv\<close>): a device in
  \<open>XSDFEC_INIT\<close> or \<open>XSDFEC_STOPPED\<close> is not write-protected.
\<close>

lemma wr_protect_state:
  "state (xsdfec_wr_protect d b) = state d"
  by (simp add: xsdfec_wr_protect_def Let_def)

lemma regread_gate:
  "wr_protect (snd (xsdfec_regread d a)) = wr_protect d"
  "state (snd (xsdfec_regread d a)) = state d"
  by (simp_all add: xsdfec_regread_def ioread32_def)

lemma reg_write_state:
  "state (snd (xsdfec_reg0_write d n k off)) = state d"
  "state (snd (xsdfec_reg1_write d psize no_packing nm off)) = state d"
  "state (snd (xsdfec_reg2_write d nlayers nmqc norm_type special_qc no_final_parity
                 max_schedule off)) = state d"
  "state (snd (xsdfec_reg3_write d sc_off la_off qc_off off)) = state d"
  by (simp_all add: xsdfec_reg0_write_def xsdfec_reg1_write_def xsdfec_reg2_write_def
      xsdfec_reg3_write_def Let_def)

lemma fold_regwrite_state:
  "state (fold (\<lambda>reg d. xsdfec_regwrite d (a reg) (v reg)) xs d) = state d"
  by (induction xs arbitrary: d) simp_all

lemma table_write_state:
  "state (snd (xsdfec_sc_table_write h d offset ptr len)) = state d"
  "state (snd (xsdfec_la_table_write h d offset ptr len)) = state d"
  "state (snd (xsdfec_qc_table_write h d offset ptr len)) = state d"
  by (simp_all add: xsdfec_sc_table_write_def xsdfec_la_table_write_def
      xsdfec_qc_table_write_def fold_regwrite_state)

lemma add_ldpc_gate:
  "wr_protect (snd (xsdfec_add_ldpc h d arg)) \<longrightarrow> wr_protect d"
  "state (snd (xsdfec_add_ldpc h d arg)) = state d"
  by (simp_all add: xsdfec_add_ldpc_def Let_def case_prod_beta reg_write_state
      table_write_state wr_protect_state reg0_write_proj(2) reg1_write_proj(2)
      reg2_write_proj(2) reg3_write_proj(2) sc_table_write_proj(2) la_table_write_proj(2)
      qc_table_write_proj(2))

lemma collect_reg_gate:
  "wr_protect (fst (snd (xsdfec_collect_ldpc_reg0 d c p))) = wr_protect d"
  "state (fst (snd (xsdfec_collect_ldpc_reg0 d c p))) = state d"
  "wr_protect (fst (snd (xsdfec_collect_ldpc_reg1 d c p))) = wr_protect d"
  "state (fst (snd (xsdfec_collect_ldpc_reg1 d c p))) = state d"
  "wr_protect (fst (snd (xsdfec_collect_ldpc_reg2 d c p))) = wr_protect d"
  "state (fst (snd (xsdfec_collect_ldpc_reg2 d c p))) = state d"
  "wr_protect (fst (snd (xsdfec_collect_ldpc_reg3 d c p))) = wr_protect d"
  "state (fst (snd (xsdfec_collect_ldpc_reg3 d c p))) = state d"
  by (simp_all add: xsdfec_collect_ldpc_reg0_def xsdfec_collect_ldpc_reg1_def
      xsdfec_collect_ldpc_reg2_def xsdfec_collect_ldpc_reg3_def Let_def case_prod_beta
      regread_gate)

lemma fold_gate:
  assumes "\<And>reg s. wr_protect (fst (f reg s)) = wr_protect (fst s)"
    and "\<And>reg s. state (fst (f reg s)) = state (fst s)"
  shows "wr_protect (fst (fold f xs s)) = wr_protect (fst s)"
    and "state (fst (fold f xs s)) = state (fst s)"
  by (induction xs arbitrary: s) (simp_all add: assms)

lemma collect_table_gate:
  "wr_protect (fst (snd (xsdfec_collect_sc_table h d offset ptr len))) = wr_protect d"
  "state (fst (snd (xsdfec_collect_sc_table h d offset ptr len))) = state d"
  "wr_protect (fst (snd (xsdfec_collect_la_table h d offset ptr len))) = wr_protect d"
  "state (fst (snd (xsdfec_collect_la_table h d offset ptr len))) = state d"
  "wr_protect (fst (snd (xsdfec_collect_qc_table h d offset ptr len))) = wr_protect d"
  "state (fst (snd (xsdfec_collect_qc_table h d offset ptr len))) = state d"
  by (simp_all add: xsdfec_collect_sc_table_def xsdfec_collect_la_table_def
      xsdfec_collect_qc_table_def Let_def case_prod_beta regread_gate fold_gate)

lemma get_ldpc_gate:
  "wr_protect (fst (snd (xsdfec_get_ldpc_code_params h d arg))) = wr_protect d"
  "state (fst (snd (xsdfec_get_ldpc_code_params h d arg))) = state d"
  by (simp_all add: xsdfec_get_ldpc_code_params_def Let_def case_prod_beta collect_reg_gate
      collect_table_gate)

lemma isr_enable_gate:
  "wr_protect (snd (xsdfec_isr_enable d e)) = wr_protect d"
  "state (snd (xsdfec_isr_enable d e)) = state d"
  "wr_protect (snd (xsdfec_ecc_isr_enable d e)) = wr_protect d"
  "state (snd (xsdfec_ecc_isr_enable d e)) = state d"
  by (simp_all add: xsdfec_isr_enable_def xsdfec_ecc_isr_enable_def Let_def case_prod_beta
      regread_gate)

lemma set_irq_gate:
  "wr_protect (snd (xsdfec_set_irq d arg)) = wr_protect d"
  "state (snd (xsdfec_set_irq d arg)) = state d"
  by (simp_all add: xsdfec_set_irq_def Let_def case_prod_beta isr_enable_gate)

lemma query_gate:
  "wr_protect (fst (snd (xsdfec_get_stats d arg))) = wr_protect d"
  "state (fst (snd (xsdfec_get_stats d arg))) = state d"
  "wr_protect (fst (snd (xsdfec_get_status d arg))) = wr_protect d"
  "state (fst (snd (xsdfec_get_status d arg))) = state d"
  "wr_protect (fst (snd (xsdfec_get_config d arg))) = wr_protect d"
  "state (fst (snd (xsdfec_get_config d arg))) = state d"
  "wr_protect (fst (snd (xsdfec_get_turbo d arg))) = wr_protect d"
  "state (fst (snd (xsdfec_get_turbo d arg))) = state d"
  "wr_protect (fst (snd (xsdfec_is_active d))) = wr_protect d"
  "state (fst (snd (xsdfec_is_active d))) = state d"
  "wr_protect (snd (xsdfec_clear_stats d)) = wr_protect d"
  "state (snd (xsdfec_clear_stats d)) = state d"
  "wr_protect (snd (xsdfec_set_order d arg)) = wr_protect d"
  "state (snd (xsdfec_set_order d arg)) = state d"
  "wr_protect (snd (xsdfec_set_bypass d arg)) = wr_protect d"
  "state (snd (xsdfec_set_bypass d arg)) = state d"
  by (simp_all add: xsdfec_get_stats_def xsdfec_get_status_def xsdfec_get_config_def
      xsdfec_get_turbo_def xsdfec_is_active_def xsdfec_clear_stats_def xsdfec_set_order_def
      xsdfec_set_bypass_def Let_def case_prod_beta regread_gate)

lemma dev_err_inv: "wr_protect_inv (dev_err d m) = wr_protect_inv d"
  by (simp add: wr_protect_inv_def)

lemma gate_inv:
  "wr_protect_inv d \<Longrightarrow> wr_protect d' = wr_protect d \<Longrightarrow> state d' = state d \<Longrightarrow>
     wr_protect_inv d'"
  by (simp add: wr_protect_inv_def)

lemma query_inv:
  assumes "wr_protect_inv d"
  shows "wr_protect_inv (fst (snd (xsdfec_get_stats d arg)))"
    and "wr_protect_inv (fst (snd (xsdfec_get_status d arg)))"
    and "wr_protect_inv (fst (snd (xsdfec_get_config d arg)))"
    and "wr_protect_inv (fst (snd (xsdfec_get_turbo d arg)))"
    and "wr_protect_inv (fst (snd (xsdfec_is_active d)))"
    and "wr_protect_inv (snd (xsdfec_clear_stats d))"
    and "wr_protect_inv (snd (xsdfec_set_order d arg))"
    and "wr_protect_inv (snd (xsdfec_set_bypass d arg))"
    and "wr_protect_inv (snd (xsdfec_set_irq d arg))"
    and "wr_protect_inv (fst (snd (xsdfec_get_ldpc_code_params h d arg)))"
  by (rule gate_inv [OF assms], simp_all add: query_gate set_irq_gate get_ldpc_gate)+

lemma set_turbo_inv:
  "wr_protect_inv d \<Longrightarrow> wr_protect_inv (snd (xsdfec_set_turbo d arg))"
  by (simp add: wr_protect_inv_def xsdfec_set_turbo_def Let_def wr_protect_state)

lemma add_ldpc_inv:
  "wr_protect_inv d \<Longrightarrow> wr_protect_inv (snd (xsdfec_add_ldpc h d arg))"
  using add_ldpc_gate [of h d arg] by (simp add: wr_protect_inv_def)

lemma stop_inv: "wr_protect_inv (snd (xsdfec_stop d))"
  by (simp add: wr_protect_inv_def xsdfec_stop_def Let_def case_prod_beta regread_gate)

lemma set_default_config_inv: "wr_protect_inv (snd (xsdfec_set_default_config d))"
  by (simp add: wr_protect_inv_def xsdfec_set_default_config_def xsdfec_cfg_axi_streams_def
      Let_def case_prod_beta)

lemma start_inv: "wr_protect_inv d \<Longrightarrow> wr_protect_inv (snd (xsdfec_start d))"
  by (simp add: wr_protect_inv_def xsdfec_start_def Let_def case_prod_beta regread_gate)

lemma ioctl_switch_inv:
  "wr_protect_inv d \<Longrightarrow> wr_protect_inv (fst (snd (xsdfec_ioctl_switch h d cmd arg rval)))"
  by (simp add: xsdfec_ioctl_switch_def case_prod_beta query_inv set_turbo_inv add_ldpc_inv
      stop_inv set_default_config_inv start_inv dev_err_inv)

lemma ioctl_inv:
  "wr_protect_inv d \<Longrightarrow> wr_protect_inv (fst (snd (xsdfec_dev_ioctl h d cmd arg)))"
  by (simp add: xsdfec_dev_ioctl_def Let_def ioctl_switch_inv dev_err_inv)

lemma log_errors_gate:
  "wr_protect (xsdfec_log_ecc_errors d e) = wr_protect d"
  "state (xsdfec_log_ecc_errors d e) = state d"
  "wr_protect (xsdfec_log_isr_errors d e) = wr_protect d"
  "state (xsdfec_log_isr_errors d e) = state d"
  by (simp_all add: xsdfec_log_ecc_errors_def xsdfec_log_isr_errors_def Let_def case_prod_beta)

lemma irq_thread_gate:
  "wr_protect (snd (xsdfec_irq_thread d)) = wr_protect d"
  "state (snd (xsdfec_irq_thread d)) = state d \<or>
   state (snd (xsdfec_irq_thread d)) = XSDFEC_NEEDS_RESET"
  by (simp_all add: xsdfec_irq_thread_def Let_def case_prod_beta isr_enable_gate regread_gate
      log_errors_gate xsdfec_reset_required_def)

lemma irq_thread_inv:
  "wr_protect_inv d \<Longrightarrow> wr_protect_inv (snd (xsdfec_irq_thread d))"
  using irq_thread_gate [of d] by (auto simp add: wr_protect_inv_def)

subsection \<open>Starting the device\<close>

text \<open>
  C6. \<open>xsdfec_start\<close> returns \<open>-EINVAL\<close> when the code family is Invalid, or the low
  bit of the hardware code register differs from \<open>code - 1\<close>, or the order is Invalid;
  it has then only read the code register (not even that when the family is Invalid)
  and left state, configuration, write-protect flag and register contents as they
  were. When all three preconditions hold and the device is in \<open>XSDFEC_INIT\<close> or
  \<open>XSDFEC_STOPPED\<close>, with the write-protect flag in step with the state
  (\<open>wr_protect_inv\<close>), it returns 0 after reading the code register, writing the
  AXI-stream enable mask to the enable register and 1 to the code and AXI write-protect
  registers, in this order; the write-protect flag is then set and the state is
  \<open>XSDFEC_STARTED\<close>.
\<close>

theorem xsdfec_start_behaviour:
  "(code (config d) = XSDFEC_CODE_INVALID \<or>
    regs d XSDFEC_FEC_CODE_ADDR AND 1 \<noteq> code_val (code (config d)) - 1 \<or>
    order (config d) = XSDFEC_INVALID_ORDER \<longrightarrow>
      fst (xsdfec_start d) = - EINVAL \<and>
      state (snd (xsdfec_start d)) = state d \<and>
      config (snd (xsdfec_start d)) = config d \<and>
      wr_protect (snd (xsdfec_start d)) = wr_protect d \<and>
      regs (snd (xsdfec_start d)) = regs d \<and>
      io_trace (snd (xsdfec_start d)) =
        io_trace d @ (if code (config d) = XSDFEC_CODE_INVALID then []
                      else [Read XSDFEC_FEC_CODE_ADDR])) \<and>
   (code (config d) \<noteq> XSDFEC_CODE_INVALID \<and>
    regs d XSDFEC_FEC_CODE_ADDR AND 1 = code_val (code (config d)) - 1 \<and>
    order (config d) \<noteq> XSDFEC_INVALID_ORDER \<and>
    (state d = XSDFEC_INIT \<or> state d = XSDFEC_STOPPED) \<and> wr_protect_inv d \<longrightarrow>
      fst (xsdfec_start d) = 0 \<and>
      state (snd (xsdfec_start d)) = XSDFEC_STARTED \<and>
      wr_protect (snd (xsdfec_start d)) \<and>
      config (snd (xsdfec_start d)) = config d \<and>
      io_trace (snd (xsdfec_start d)) =
        io_trace d @ [Read XSDFEC_FEC_CODE_ADDR,
                      Write XSDFEC_AXIS_ENABLE_ADDR XSDFEC_AXIS_ENABLE_MASK,
                      Write XSDFEC_CODE_WR_PROTECT_ADDR 1,
                      Write XSDFEC_AXI_WR_PROTECT_ADDR 1] \<and>
      regs (snd (xsdfec_start d)) =
        (regs d)(XSDFEC_AXIS_ENABLE_ADDR := XSDFEC_AXIS_ENABLE_MASK,
                 XSDFEC_CODE_WR_PROTECT_ADDR := 1, XSDFEC_AXI_WR_PROTECT_ADDR := 1))"
  by (auto simp add: xsdfec_start_def xsdfec_regread_def ioread32_def Let_def
      xsdfec_wr_protect_def xsdfec_regwrite_def iowrite32_def wr_protect_inv_def)


text \<open>
  Both halves at concrete devices: \<open>example_dev\<close> has no decode order yet and is
  refused; \<open>example_ready\<close> is started from \<open>XSDFEC_INIT\<close>, and once more from
  \<open>XSDFEC_STOPPED\<close> after it has been stopped.
\<close>

theorem xsdfec_start_behaviour_witness:
  "order (config example_dev) = XSDFEC_INVALID_ORDER \<and>
   fst (xsdfec_start example_dev) = - EINVAL \<and>
   state (snd (xsdfec_start example_dev)) = XSDFEC_INIT \<and>
   io_trace (snd (xsdfec_start example_dev)) = [Read XSDFEC_FEC_CODE_ADDR] \<and>
   code (config example_ready) \<noteq> XSDFEC_CODE_INVALID \<and>
   regs example_ready XSDFEC_FEC_CODE_ADDR AND 1 = code_val (code (config example_ready)) - 1 \<and>
   order (config example_ready) \<noteq> XSDFEC_INVALID_ORDER \<and>
   state example_ready = XSDFEC_INIT \<and>
   wr_protect_inv example_ready \<and>
   fst (xsdfec_start example_ready) = 0 \<and>
   state (snd (xsdfec_start example_ready)) = XSDFEC_STARTED \<and>
   wr_protect (snd (xsdfec_start example_ready)) \<and>
   io_trace (snd (xsdfec_start example_ready)) =
     [Read XSDFEC_FEC_CODE_ADDR, Write XSDFEC_AXIS_ENABLE_ADDR XSDFEC_AXIS_ENABLE_MASK,
      Write XSDFEC_CODE_WR_PROTECT_ADDR 1, Write XSDFEC_AXI_WR_PROTECT_ADDR 1] \<and>
   state (snd (xsdfec_stop (snd (xsdfec_start example_ready)))) = XSDFEC_STOPPED \<and>
   wr_protect_inv (snd (xsdfec_stop (snd (xsdfec_start example_ready)))) \<and>
   fst (xsdfec_start (snd (xsdfec_stop (snd (xsdfec_start example_ready))))) = 0 \<and>
   state (snd (xsdfec_start (snd (xsdfec_stop (snd (xsdfec_start example_ready)))))) =
     XSDFEC_STARTED \<and>
   io_trace (snd (xsdfec_start (snd (xsdfec_stop (snd (xsdfec_start example_ready)))))) =
     io_trace (snd (xsdfec_stop (snd (xsdfec_start example_ready)))) @
     [Read XSDFEC_FEC_CODE_ADDR, Write XSDFEC_AXIS_ENABLE_ADDR XSDFEC_AXIS_ENABLE_MASK,
      Write XSDFEC_CODE_WR_PROTECT_ADDR 1, Write XSDFEC_AXI_WR_PROTECT_ADDR 1]"
proof -
  define s where "s = snd (xsdfec_stop (snd (xsdfec_start example_ready)))"
  have inv: "wr_protect_inv s"
    unfolding s_def by (rule stop_inv)
  have s: "state s = XSDFEC_STOPPED" "config s = config example_ready"
    "regs s XSDFEC_FEC_CODE_ADDR = 1"
    unfolding s_def
    by (simp_all add: xsdfec_stop_def xsdfec_start_def Let_def case_prod_beta
        xsdfec_regread_def ioread32_def xsdfec_wr_protect_def xsdfec_regwrite_def
        iowrite32_def example_ready_def example_dev_def example_config_def)
  show ?thesis
    using xsdfec_start_behaviour [of example_dev] xsdfec_start_behaviour [of example_ready]
      xsdfec_start_behaviour [of s] s inv
    unfolding s_def [symmetric]
    by (simp add: example_ready_def example_dev_def example_config_def wr_protect_inv_def)
qed

subsection \<open>Code family checks of the LDPC programming call\<close>

lemma add_ldpc_turbo:
  "\<not> kzalloc_fails arg \<Longrightarrow> copy_from_user_left arg = 0 \<Longrightarrow>
   code (config d) = XSDFEC_TURBO_CODE \<Longrightarrow>
     xsdfec_add_ldpc h d arg =
       (0, dev_err d ''xsdfec_add_ldpc: Unable to write LDPC to SDFEC check DT'')"
  by (simp add: xsdfec_add_ldpc_def)

lemma write_config [simp]:
  "config (snd (xsdfec_reg0_write d n k off)) = config d"
  "config (snd (xsdfec_reg1_write d psize no_packing nm off)) = config d"
  "config (snd (xsdfec_reg2_write d nlayers nmqc norm_type special_qc no_final_parity
                  max_schedule off)) = config d"
  "config (snd (xsdfec_reg3_write d sc_off la_off qc_off off)) = config d"
  by (simp_all add: xsdfec_reg0_write_def xsdfec_reg1_write_def xsdfec_reg2_write_def
      xsdfec_reg3_write_def Let_def)

lemma fold_regwrite_config [simp]:
  "config (fold (\<lambda>reg d. xsdfec_regwrite d (a reg) (v reg)) xs d) = config d"
  by (induction xs arbitrary: d) simp_all

lemma table_write_config [simp]:
  "config (snd (xsdfec_sc_table_write h d offset ptr len)) = config d"
  "config (snd (xsdfec_la_table_write h d offset ptr len)) = config d"
  "config (snd (xsdfec_qc_table_write h d offset ptr len)) = config d"
  by (simp_all add: xsdfec_sc_table_write_def xsdfec_la_table_write_def xsdfec_qc_table_write_def)

lemma add_ldpc_config: "config (snd (xsdfec_add_ldpc h d arg)) = config d"
  by (simp add: xsdfec_add_ldpc_def Let_def case_prod_beta)

text \<open>
  C2, at the failing inputs. With the code family Turbo, \<open>xsdfec_add_ldpc\<close> logs the
  refusal and touches no register, but returns 0: \<open>err\<close> still holds the 0 of the
  successful \<open>copy_from_user\<close> when it jumps to \<open>err_out\<close>. With the code family
  Invalid, the descriptor is programmed and the family is still Invalid afterwards.
\<close>

theorem add_ldpc_turbo_and_invalid_example:
  "code (config example_turbo) = XSDFEC_TURBO_CODE \<and>
   fst (xsdfec_add_ldpc example_uapi example_turbo example_arg) = 0 \<and>
   io_trace (snd (xsdfec_add_ldpc example_uapi example_turbo example_arg)) = [] \<and>
   errlog (snd (xsdfec_add_ldpc example_uapi example_turbo example_arg)) =
     [''xsdfec_add_ldpc: Unable to write LDPC to SDFEC check DT''] \<and>
   code (config example_unset) = XSDFEC_CODE_INVALID \<and>
   code (config (snd (xsdfec_add_ldpc example_uapi example_unset example_arg))) =
     XSDFEC_CODE_INVALID"
proof -
  have a: "\<not> kzalloc_fails example_arg" "copy_from_user_left example_arg = 0"
    by (simp_all add: example_arg_def)
  have t: "code (config example_turbo) = XSDFEC_TURBO_CODE"
    by (simp add: example_turbo_def example_dev_def example_config_def)
  show ?thesis
    by (simp add: add_ldpc_turbo [OF a t] add_ldpc_config)
       (simp add: example_turbo_def example_unset_def example_dev_def example_config_def)
qed


subsection \<open>Field validation in the register-0 encoder\<close>

text \<open>
  C9, at the failing input. \<open>xsdfec_reg0_write\<close> tests \<open>k\<close> against the shifted field
  mask \<open>0x7fff0000\<close>, so a \<open>k\<close> whose only excess bit is bit 31 (or bit 15) is masked
  to 0 and written without any message, while \<open>k = 0x10000\<close> is logged. The write
  itself proceeds with the masked value and the call returns 0.
\<close>

theorem reg0_write_k_not_logged_example:
  "fst (xsdfec_reg0_write example_dev 0 0x80000000 0) = 0 \<and>
   io_trace (snd (xsdfec_reg0_write example_dev 0 0x80000000 0)) = [Write 0x2000 0] \<and>
   errlog (snd (xsdfec_reg0_write example_dev 0 0x80000000 0)) = [] \<and>
   errlog (snd (xsdfec_reg0_write example_dev 0 0x8000 0)) = [] \<and>
   errlog (snd (xsdfec_reg0_write example_dev 0 0x10000 0)) = [''K value is beyond 16 bits'']"
  by (simp add: xsdfec_reg0_write_def xsdfec_regwrite_def iowrite32_def dev_err_def Let_def
      example_dev_def)


subsection \<open>Table bounds\<close>

text \<open>
  The bounds test of the table functions, read in \<open>u32\<close> arithmetic as the code
  computes it: when the wrapped product exceeds the depth, the call returns \<open>-EINVAL\<close>
  and the register window and access trace are untouched.
\<close>

lemma table_bounds_u32:
  "XSDFEC_REG_WIDTH_JUMP * (offset + len) > XSDFEC_SC_TABLE_DEPTH \<Longrightarrow>
     xsdfec_sc_table_write h d offset ptr len =
       (- EINVAL, dev_err d ''Write exceeds SC table length'') \<and>
     xsdfec_collect_sc_table h d offset ptr len =
       (- EINVAL, dev_err d ''Access will exceed SC table length'', ptr)"
  "XSDFEC_REG_WIDTH_JUMP * (offset + len) > XSDFEC_LA_TABLE_DEPTH \<Longrightarrow>
     xsdfec_la_table_write h d offset ptr len =
       (- EINVAL, dev_err d ''Write exceeds LA table length'') \<and>
     xsdfec_collect_la_table h d offset ptr len =
       (- EINVAL, dev_err d ''Access will exceed LA table length'', ptr)"
  "XSDFEC_REG_WIDTH_JUMP * (offset + len) > XSDFEC_QC_TABLE_DEPTH \<Longrightarrow>
     xsdfec_qc_table_write h d offset ptr len =
       (- EINVAL, dev_err d ''Write exceeds QC table length'') \<and>
     xsdfec_collect_qc_table h d offset ptr len =
       (- EINVAL, dev_err d ''Access will exceed QC table length'', ptr)"
  by (simp_all add: xsdfec_sc_table_write_def xsdfec_collect_sc_table_def
      xsdfec_la_table_write_def xsdfec_collect_la_table_def
      xsdfec_qc_table_write_def xsdfec_collect_qc_table_def)

text \<open>
  C3, at the failing input. For offset \<open>0x3FFFFFFF\<close> and length 1, \<open>(offset + length) * 4\<close>
  is \<open>2^32\<close>, far beyond the depth \<open>0x3fc\<close> of the shared-scale table, but the
  product wraps to 0 in \<open>u32\<close>: the write function returns 1 after writing one word
  outside the table, and the read function returns 0 after reading it.
\<close>

theorem sc_table_bounds_wrap_example:
  "(unat (0x3FFFFFFF :: u32) + unat (1 :: u32)) * 4 > unat XSDFEC_SC_TABLE_DEPTH \<and>
   fst (xsdfec_sc_table_write example_uapi example_dev 0x3FFFFFFF (\<lambda>_. 0x11) 1) = 1 \<and>
   io_trace (snd (xsdfec_sc_table_write example_uapi example_dev 0x3FFFFFFF (\<lambda>_. 0x11) 1)) =
     [Write 0xFFFC 0x11] \<and>
   fst (xsdfec_collect_sc_table example_uapi example_dev 0x3FFFFFFF (\<lambda>_. 0) 1) = 0 \<and>
   io_trace (fst (snd (xsdfec_collect_sc_table example_uapi example_dev 0x3FFFFFFF (\<lambda>_. 0) 1))) =
     [Read 0xFFFC]"
  by (simp add: xsdfec_sc_table_write_def xsdfec_collect_sc_table_def xsdfec_regwrite_def
      iowrite32_def xsdfec_regread_def ioread32_def upt_0_1 example_dev_def example_uapi_def)

subsection \<open>Interrupt handling\<close>

lemma hweight32_1: "hweight32 1 = 1"
  by (simp add: hweight32_def upt_rec)

lemma irq_example:
  "\<exists>d'. xsdfec_irq_thread example_faulted = (IRQ_HANDLED, d') \<and>
     state d' = XSDFEC_NEEDS_RESET \<and> waitq_woken d' \<and> isr_err_count d' = 1 \<and>
     regs d' XSDFEC_ISR_ADDR = 1 \<and>
     io_trace d' =
       [Write XSDFEC_IDR_ADDR XSDFEC_ISR_MASK, Read XSDFEC_IMR_ADDR,
        Write XSDFEC_ECC_IDR_ADDR XSDFEC_ECC_ISR_MASK, Read XSDFEC_ECC_IMR_ADDR,
        Read XSDFEC_ECC_ISR_ADDR, Read XSDFEC_ISR_ADDR,
        Write XSDFEC_ECC_ISR_ADDR 0,
        Write XSDFEC_IER_ADDR XSDFEC_ISR_MASK, Read XSDFEC_IMR_ADDR,
        Write XSDFEC_ECC_IER_ADDR XSDFEC_ECC_ISR_MASK, Read XSDFEC_ECC_IMR_ADDR]"
proof -
  define d0 where "d0 = example_faulted
    \<lparr>regs := (regs example_faulted)(XSDFEC_IDR_ADDR := XSDFEC_ISR_MASK),
     io_trace := [Write XSDFEC_IDR_ADDR XSDFEC_ISR_MASK, Read XSDFEC_IMR_ADDR],
     errlog := [''SDFEC disabling irq with IDR failed'']\<rparr>"
  define d1 where "d1 = d0
    \<lparr>regs := (regs d0)(XSDFEC_ECC_IDR_ADDR := XSDFEC_ECC_ISR_MASK),
     io_trace := io_trace d0 @ [Write XSDFEC_ECC_IDR_ADDR XSDFEC_ECC_ISR_MASK, Read XSDFEC_ECC_IMR_ADDR],
     errlog := errlog d0 @ [''SDFEC disable ECC irq with ECC IDR failed'']\<rparr>"
  define d2 where "d2 = d1\<lparr>io_trace := io_trace d1 @ [Read XSDFEC_ECC_ISR_ADDR]\<rparr>"
  define d3 where "d3 = d2\<lparr>io_trace := io_trace d2 @ [Read XSDFEC_ISR_ADDR]\<rparr>"
  define d4 where "d4 = d3
    \<lparr>regs := (regs d3)(XSDFEC_ECC_ISR_ADDR := 0),
     io_trace := io_trace d3 @ [Write XSDFEC_ECC_ISR_ADDR 0],
     errlog := errlog d3 @ [''Tlast,or DIN_WORDS or DOUT_WORDS not correct''],
     isr_err_count := 1\<rparr>"
  define d5 where "d5 = d4\<lparr>state := XSDFEC_NEEDS_RESET, waitq_woken := True\<rparr>"
  define d6 where "d6 = d5
    \<lparr>regs := (regs d5)(XSDFEC_IER_ADDR := XSDFEC_ISR_MASK),
     io_trace := io_trace d5 @ [Write XSDFEC_IER_ADDR XSDFEC_ISR_MASK, Read XSDFEC_IMR_ADDR]\<rparr>"
  define d7 where "d7 = d6
    \<lparr>regs := (regs d6)(XSDFEC_ECC_IER_ADDR := XSDFEC_ECC_ISR_MASK),
     io_trace := io_trace d6 @ [Write XSDFEC_ECC_IER_ADDR XSDFEC_ECC_ISR_MASK, Read XSDFEC_ECC_IMR_ADDR]\<rparr>"
  note ds = d0_def d1_def d2_def d3_def d4_def d5_def d6_def d7_def example_faulted_def
    example_dev_def
  note fs = xsdfec_isr_enable_def xsdfec_ecc_isr_enable_def xsdfec_regread_def ioread32_def
    xsdfec_regwrite_def iowrite32_def dev_err_def
  have i0: "xsdfec_isr_enable example_faulted False = (- EIO, d0)"
    by (simp add: fs ds)
  have i1: "xsdfec_ecc_isr_enable d0 False = (- EIO, d1)"
    by (simp add: fs ds)
  have i2: "xsdfec_regread d1 XSDFEC_ECC_ISR_ADDR = (0, d2)"
    by (simp add: fs ds)
  have i3: "xsdfec_regread d2 XSDFEC_ISR_ADDR = (1, d3)"
    by (simp add: fs ds)
  have i4: "xsdfec_log_isr_errors d3 1 = d4"
    by (simp add: xsdfec_log_isr_errors_def atomic_add_return_def hweight32_1 fs ds)
  have i5: "xsdfec_reset_required d4\<lparr>waitq_woken := True\<rparr> = d5"
    by (simp add: xsdfec_reset_required_def d5_def)
  have i6: "xsdfec_isr_enable d5 True = (0, d6)"
    by (simp add: fs ds)
  have i7: "xsdfec_ecc_isr_enable d6 True = (0, d7)"
    by (simp add: fs ds)
  have e: "xsdfec_irq_thread example_faulted = (IRQ_HANDLED, d7)"
    unfolding xsdfec_irq_thread_def
    by (simp add: i0 i1 i2 i3 i4 i5 i6 i7)
  show ?thesis
    unfolding e by (simp add: ds)
qed

text \<open>
  C5, at the failing input. With only bit 0 of the general interrupt status register
  set, the handler counts one ISR error, moves to \<open>XSDFEC_NEEDS_RESET\<close> and wakes the
  waiters, but the clearing write of \<open>xsdfec_log_isr_errors\<close> goes to the ECC
  status register \<open>XSDFEC_ECC_ISR_ADDR\<close>: the general status register is never
  written and still holds its bit afterwards.
\<close>

theorem irq_isr_error_not_cleared_example:
  "regs example_faulted XSDFEC_ECC_ISR_ADDR AND XSDFEC_ECC_ISR_MBE = 0 \<and>
   regs example_faulted XSDFEC_ISR_ADDR AND XSDFEC_ISR_MASK = 1 \<and>
   fst (xsdfec_irq_thread example_faulted) = IRQ_HANDLED \<and>
   state (snd (xsdfec_irq_thread example_faulted)) = XSDFEC_NEEDS_RESET \<and>
   waitq_woken (snd (xsdfec_irq_thread example_faulted)) \<and>
   isr_err_count (snd (xsdfec_irq_thread example_faulted)) = 1 \<and>
   io_trace (snd (xsdfec_irq_thread example_faulted)) =
     [Write XSDFEC_IDR_ADDR XSDFEC_ISR_MASK, Read XSDFEC_IMR_ADDR,
      Write XSDFEC_ECC_IDR_ADDR XSDFEC_ECC_ISR_MASK, Read XSDFEC_ECC_IMR_ADDR,
      Read XSDFEC_ECC_ISR_ADDR, Read XSDFEC_ISR_ADDR,
      Write XSDFEC_ECC_ISR_ADDR 0,
      Write XSDFEC_IER_ADDR XSDFEC_ISR_MASK, Read XSDFEC_IMR_ADDR,
      Write XSDFEC_ECC_IER_ADDR XSDFEC_ECC_ISR_MASK, Read XSDFEC_ECC_IMR_ADDR] \<and>
   regs (snd (xsdfec_irq_thread example_faulted)) XSDFEC_ISR_ADDR = 1"
proof -
  from irq_example obtain d' where
    "xsdfec_irq_thread example_faulted = (IRQ_HANDLED, d')"
    "state d' = XSDFEC_NEEDS_RESET" "waitq_woken d'" "isr_err_count d' = 1"
    "regs d' XSDFEC_ISR_ADDR = 1"
    "io_trace d' =
       [Write XSDFEC_IDR_ADDR XSDFEC_ISR_MASK, Read XSDFEC_IMR_ADDR,
        Write XSDFEC_ECC_IDR_ADDR XSDFEC_ECC_ISR_MASK, Read XSDFEC_ECC_IMR_ADDR,
        Read XSDFEC_ECC_ISR_ADDR, Read XSDFEC_ISR_ADDR,
        Write XSDFEC_ECC_ISR_ADDR 0,
        Write XSDFEC_IER_ADDR XSDFEC_ISR_MASK, Read XSDFEC_IMR_ADDR,
        Write XSDFEC_ECC_IER_ADDR XSDFEC_ECC_ISR_MASK, Read XSDFEC_ECC_IMR_ADDR]"
    by blast
  then show ?thesis
    by (simp add: example_faulted_def example_dev_def)
qed

subsection \<open>Reading a descriptor back\<close>

text \<open>
  C10. When the request succeeds with a writable buffer (every register and table
  read went through and 0 was returned), the same request with a buffer that
  \<open>copy_to_user\<close> cannot fill also returns 0: the same reads are made, the failure is
  only logged, nothing reaches the caller, and the \<open>-EFAULT\<close> is dropped.
\<close>

theorem get_ldpc_copy_to_user_failure_returns_0:
  assumes "copy_to_user_left arg \<noteq> 0"
    and "xsdfec_get_ldpc_code_params h xsdfec (arg\<lparr>copy_to_user_left := 0\<rparr>) = (0, xsdfec', Some p)"
  shows "xsdfec_get_ldpc_code_params h xsdfec arg =
           (0, dev_err xsdfec' ''xsdfec_get_ldpc_code_params failed for SDFEC'', None)"
  using assms unfolding xsdfec_get_ldpc_code_params_def
  by (auto simp add: Let_def split: if_splits prod.splits)

theorem get_ldpc_copy_to_user_failure_returns_0_witness:
  "copy_to_user_left (example_arg\<lparr>arg_ldpc := example_query, copy_to_user_left := 1\<rparr>) \<noteq> 0 \<and>
   fst (xsdfec_get_ldpc_code_params example_uapi example_programmed
          (example_arg\<lparr>arg_ldpc := example_query, copy_to_user_left := 0\<rparr>)) = 0 \<and>
   fst (xsdfec_get_ldpc_code_params example_uapi example_programmed
          (example_arg\<lparr>arg_ldpc := example_query, copy_to_user_left := 1\<rparr>)) = 0 \<and>
   snd (snd (xsdfec_get_ldpc_code_params example_uapi example_programmed
          (example_arg\<lparr>arg_ldpc := example_query, copy_to_user_left := 1\<rparr>))) = None"
proof -
  let ?a = "example_arg\<lparr>arg_ldpc := example_query, copy_to_user_left := 1\<rparr>"
  have a0: "?a\<lparr>copy_to_user_left := 0\<rparr> = example_arg\<lparr>arg_ldpc := example_query\<rparr>"
    "example_arg\<lparr>arg_ldpc := example_query, copy_to_user_left := 0\<rparr> =
       example_arg\<lparr>arg_ldpc := example_query\<rparr>"
    by (simp_all add: example_arg_def)
  from get_example obtain d' p where
    e: "xsdfec_get_ldpc_code_params example_uapi example_programmed
          (example_arg\<lparr>arg_ldpc := example_query\<rparr>) = (0, d', Some p)"
    by blast
  have n: "copy_to_user_left ?a \<noteq> 0" by simp
  from e have e': "xsdfec_get_ldpc_code_params example_uapi example_programmed
          (?a\<lparr>copy_to_user_left := 0\<rparr>) = (0, d', Some p)"
    by (simp only: a0)
  show ?thesis
    using get_ldpc_copy_to_user_failure_returns_0 [OF n e'] e
    by (simp add: a0)
qed


text \<open>
  C1, at the failing input. The descriptor \<open>example_ldpc\<close> is programmed with return
  value 0 and code 3 is read back with return value 0, yet \<open>k\<close> comes back as 0
  instead of 32400, \<open>nm\<close> as 0 instead of 180, \<open>nmqc\<close> as 2048 instead of 8,
  \<open>norm_type\<close> as 0 instead of 1, and the three table payloads as 0 instead of the
  words written: the decoders mask with the unshifted field masks after shifting, and
  the offsets used for the table reads are taken from the register address.
\<close>

theorem ldpc_round_trip_example:
  "fst (xsdfec_add_ldpc example_uapi example_dev example_arg) = 0 \<and>
   ldpc_k (arg_ldpc example_arg) = 32400 \<and> ldpc_nm (arg_ldpc example_arg) = 180 \<and>
   ldpc_nmqc (arg_ldpc example_arg) = 8 \<and> ldpc_norm_type (arg_ldpc example_arg) = 1 \<and>
   ldpc_sc_table (arg_ldpc example_arg) 0 = 0x11 \<and> ldpc_la_table (arg_ldpc example_arg) 0 = 0x22 \<and>
   ldpc_qc_table (arg_ldpc example_arg) 0 = 0x33 \<and>
   fst (xsdfec_get_ldpc_code_params example_uapi
          (snd (xsdfec_add_ldpc example_uapi example_dev example_arg))
          (example_arg\<lparr>arg_ldpc := example_query\<rparr>)) = 0 \<and>
   map_option (\<lambda>p. (ldpc_n p, ldpc_k p, ldpc_psize p, ldpc_nlayers p, ldpc_nm p, ldpc_nmqc p,
                     ldpc_norm_type p, ldpc_sc_table p 0, ldpc_la_table p 0, ldpc_qc_table p 0))
     (snd (snd (xsdfec_get_ldpc_code_params example_uapi
          (snd (xsdfec_add_ldpc example_uapi example_dev example_arg))
          (example_arg\<lparr>arg_ldpc := example_query\<rparr>)))) =
     Some (64800, 0, 360, 1, 0, 2048, 0, 0, 0, 0)"
proof -
  from get_example obtain d' p where
    e: "xsdfec_get_ldpc_code_params example_uapi example_programmed
          (example_arg\<lparr>arg_ldpc := example_query\<rparr>) = (0, d', Some p)"
    and p: "ldpc_n p = 64800" "ldpc_k p = 0" "ldpc_psize p = 360" "ldpc_nm p = 0"
      "ldpc_nlayers p = 1" "ldpc_nmqc p = 2048" "ldpc_norm_type p = 0"
      "ldpc_sc_table p 0 = 0" "ldpc_la_table p 0 = 0" "ldpc_qc_table p 0 = 0"
    by blast
  show ?thesis
    by (simp add: add_example e p) (simp add: example_arg_def example_ldpc_def)
qed

end
